theory Spec2Isabelle
  imports Complex_Main "HOL-Library.Char_ord" "HOL-Library.List_Lexorder" "HOL-Library.Multiset"
    "HOL-Library.DAList"
begin

section \<open>Python strings\<close>

text \<open>
  Schema documents are read with \<^verbatim>\<open>encoding="latin-1"\<close>, so every character of a
  document is one of the 256 Latin-1 code points: a \<^typ>\<open>char\<close>. A Python \<^verbatim>\<open>str\<close> is
  a \<^typ>\<open>string\<close>, compared and sorted by code point as Python does.
\<close>

definition ascii_lowercase :: string where
  "ascii_lowercase = ''abcdefghijklmnopqrstuvwxyz''"

definition ascii_uppercase :: string where
  "ascii_uppercase = ''ABCDEFGHIJKLMNOPQRSTUVWXYZ''"

definition digits :: string where
  "digits = ''0123456789''"

text \<open>\<^verbatim>\<open>str.isspace\<close> on Latin-1: TAB, LF, VT, FF, CR, FS, GS, RS, US, SPACE, NEL, NBSP.
  This is also the class \<^verbatim>\<open>\s\<close> of a \<^verbatim>\<open>str\<close> pattern.\<close>

definition is_space :: "char \<Rightarrow> bool" where
  "is_space c \<longleftrightarrow> of_char c \<in> {9, 10, 11, 12, 13, 28, 29, 30, 31, 32, 133, 160 :: nat}"

text \<open>\<^verbatim>\<open>\d\<close>, \<^verbatim>\<open>[A-Z]\<close>, \<^verbatim>\<open>[a-z0-9]\<close>, \<^verbatim>\<open>[A-Z0-9]\<close> and \<^verbatim>\<open>[A-Z0-9_]\<close>.\<close>

definition is_digit :: "char \<Rightarrow> bool" where
  "is_digit c \<longleftrightarrow> c \<in> set digits"

definition is_upper :: "char \<Rightarrow> bool" where
  "is_upper c \<longleftrightarrow> c \<in> set ascii_uppercase"

definition is_lower_alnum :: "char \<Rightarrow> bool" where
  "is_lower_alnum c \<longleftrightarrow> c \<in> set (ascii_lowercase @ digits)"

definition is_upper_alnum :: "char \<Rightarrow> bool" where
  "is_upper_alnum c \<longleftrightarrow> c \<in> set (ascii_uppercase @ digits)"

definition is_name_char :: "char \<Rightarrow> bool" where
  "is_name_char c \<longleftrightarrow> c \<in> set (ascii_uppercase @ digits @ ''_'')"

text \<open>\<^verbatim>\<open>str.lower\<close> and \<^verbatim>\<open>str.upper\<close>, as the case mapping of the ASCII letters; every
  other character is left as it is.\<close>

definition lower_char :: "char \<Rightarrow> char" where
  "lower_char c = (case map_of (zip ascii_uppercase ascii_lowercase) c of None \<Rightarrow> c | Some d \<Rightarrow> d)"

definition upper_char :: "char \<Rightarrow> char" where
  "upper_char c = (case map_of (zip ascii_lowercase ascii_uppercase) c of None \<Rightarrow> c | Some d \<Rightarrow> d)"

definition str_lower :: "string \<Rightarrow> string" where
  "str_lower s = map lower_char s"

definition str_upper :: "string \<Rightarrow> string" where
  "str_upper s = map upper_char s"

text \<open>\<^verbatim>\<open>s.strip()\<close> and \<^verbatim>\<open>s.strip("_")\<close>: the characters are removed at both ends.\<close>

definition strip_where :: "(char \<Rightarrow> bool) \<Rightarrow> string \<Rightarrow> string" where
  "strip_where P s = rev (dropWhile P (rev (dropWhile P s)))"

definition str_strip :: "string \<Rightarrow> string" where
  "str_strip s = strip_where is_space s"

definition strip_underscores :: "string \<Rightarrow> string" where
  "strip_underscores s = strip_where (\<lambda>c. c = CHR ''_'') s"

text \<open>\<^verbatim>\<open>needle in s\<close>.\<close>

fun str_contains :: "string \<Rightarrow> string \<Rightarrow> bool" where
  "str_contains needle [] = (needle = [])"
| "str_contains needle (c # cs) =
     (take (length needle) (c # cs) = needle \<or> str_contains needle cs)"

text \<open>\<^verbatim>\<open>sep.join(parts)\<close>.\<close>

fun str_join :: "string \<Rightarrow> string list \<Rightarrow> string" where
  "str_join sep [] = []"
| "str_join sep [p] = p"
| "str_join sep (p # q # ps) = p @ sep @ str_join sep (q # ps)"

section \<open>Python values\<close>

text \<open>\<^verbatim>\<open>str(n)\<close> for a natural number.\<close>

definition digit_char :: "nat \<Rightarrow> char" where
  "digit_char d = digits ! d"

function str_nat :: "nat \<Rightarrow> string" where
  "str_nat n = (if n < 10 then [digit_char n] else str_nat (n div 10) @ [digit_char (n mod 10)])"
  by pat_completeness auto
termination
  by (relation "measure id") auto

declare str_nat.simps [simp del]

text \<open>\<^verbatim>\<open>int(s)\<close> on a string of ASCII digits. Python refuses a digit string longer than
  \<^verbatim>\<open>sys.get_int_max_str_digits()\<close>, which is 4300 unless reconfigured, with a
  \<^verbatim>\<open>ValueError\<close>; \<open>Inl\<close> holds its message.\<close>

definition digit_val :: "char \<Rightarrow> nat" where
  "digit_val c = of_char c - 48"

definition py_int :: "string \<Rightarrow> string + nat" where
  "py_int s =
     (if length s > 4300
      then Inl (''Exceeds the limit (4300 digits) for integer string conversion: value has ''
             @ str_nat (length s) @ '' digits; use sys.set_int_max_str_digits() to increase the limit'')
      else Inr (foldl (\<lambda>n c. 10 * n + digit_val c) 0 s))"

text \<open>\<^verbatim>\<open>s.splitlines()\<close>: lines end at LF, VT, FF, CR, CR LF, FS, GS, RS and NEL; the line
  ends are dropped and no empty last line is produced.\<close>

definition is_line_boundary :: "char \<Rightarrow> bool" where
  "is_line_boundary c \<longleftrightarrow> of_char c \<in> {10, 11, 12, 13, 28, 29, 30, 133 :: nat}"

fun splitlines_from :: "string \<Rightarrow> string \<Rightarrow> string list" where
  "splitlines_from cur [] = (if cur = [] then [] else [rev cur])"
| "splitlines_from cur [c] =
     (if is_line_boundary c then [rev cur] else [rev (c # cur)])"
| "splitlines_from cur (c # d # cs) =
     (if of_char c = (13 :: nat) \<and> of_char d = (10 :: nat) then rev cur # splitlines_from [] cs
      else if is_line_boundary c then rev cur # splitlines_from [] (d # cs)
      else splitlines_from (c # cur) (d # cs))"

definition splitlines :: "string \<Rightarrow> string list" where
  "splitlines s = splitlines_from [] s"

text \<open>\<^verbatim>\<open>s.split(",")\<close>.\<close>

fun split_from :: "char \<Rightarrow> string \<Rightarrow> string \<Rightarrow> string list" where
  "split_from sep cur [] = [rev cur]"
| "split_from sep cur (c # cs) =
     (if c = sep then rev cur # split_from sep [] cs else split_from sep (c # cur) cs)"

definition str_split :: "char \<Rightarrow> string \<Rightarrow> string list" where
  "str_split sep s = split_from sep [] s"

section \<open>Schema doc parsing config\<close>

text \<open>\<^verbatim>\<open>FIELD_ROW_PATTERN = ^\s*(\d+)\s+([A-Z0-9_]+)\s+([A-Z]+)\((\d+)\)\s*(.*)$\<close>, matched at
  the start of a line. Each repeated class is disjoint from what follows it, so the greedy
  match is the only one; the result holds the five groups. (A line comes from
  \<open>splitlines\<close> and holds no line feed, so \<^verbatim>\<open>(.*)$\<close> takes the rest of it.)\<close>

definition FIELD_ROW_PATTERN_match ::
    "string \<Rightarrow> (string \<times> string \<times> string \<times> string \<times> string) option" where
  "FIELD_ROW_PATTERN_match line =
     (let s0 = dropWhile is_space line;
          g1 = takeWhile is_digit s0; s1 = dropWhile is_digit s0;
          w1 = takeWhile is_space s1; s2 = dropWhile is_space s1;
          g2 = takeWhile is_name_char s2; s3 = dropWhile is_name_char s2;
          w2 = takeWhile is_space s3; s4 = dropWhile is_space s3;
          g3 = takeWhile is_upper s4; s5 = dropWhile is_upper s4;
          g4 = takeWhile is_digit (tl s5); s6 = dropWhile is_digit (tl s5)
      in if g1 \<noteq> [] \<and> w1 \<noteq> [] \<and> g2 \<noteq> [] \<and> w2 \<noteq> [] \<and> g3 \<noteq> [] \<and>
            s5 \<noteq> [] \<and> hd s5 = CHR ''('' \<and> g4 \<noteq> [] \<and> s6 \<noteq> [] \<and> hd s6 = CHR '')''
         then Some (g1, g2, g3, g4, dropWhile is_space (tl s6))
         else None)"

text \<open>\<^verbatim>\<open>CODE_LINE_PATTERN = ^\s*([A-Z0-9]{1,10})\s*=\<close>; the result is group 1.\<close>

definition CODE_LINE_PATTERN_match :: "string \<Rightarrow> string option" where
  "CODE_LINE_PATTERN_match line =
     (let s0 = dropWhile is_space line;
          g1 = takeWhile is_upper_alnum s0;
          s1 = dropWhile is_space (dropWhile is_upper_alnum s0)
      in if g1 \<noteq> [] \<and> length g1 \<le> 10 \<and> s1 \<noteq> [] \<and> hd s1 = CHR ''=''
         then Some g1 else None)"

text \<open>\<^verbatim>\<open>BRACKET_CODES_PATTERN = \[([A-Z0-9,\s/]+)\]\<close>; \<open>finditer\<close> gives group 1 of every
  match, left to right, the search resuming after each match.\<close>

definition is_bracket_char :: "char \<Rightarrow> bool" where
  "is_bracket_char c \<longleftrightarrow> is_upper_alnum c \<or> c = CHR '','' \<or> is_space c \<or> c = CHR ''/''"

function BRACKET_CODES_PATTERN_finditer :: "string \<Rightarrow> string list" where
  "BRACKET_CODES_PATTERN_finditer [] = []"
| "BRACKET_CODES_PATTERN_finditer (c # cs) =
     (let g1 = takeWhile is_bracket_char cs; s1 = dropWhile is_bracket_char cs
      in if c = CHR ''['' \<and> g1 \<noteq> [] \<and> s1 \<noteq> [] \<and> hd s1 = CHR '']''
         then g1 # BRACKET_CODES_PATTERN_finditer (tl s1)
         else BRACKET_CODES_PATTERN_finditer cs)"
  by pat_completeness auto
termination
proof (relation "measure length")
  show "wf (measure length)" by simp
next
  fix c :: char and cs x xa :: string
  assume "xa = dropWhile is_bracket_char cs"
  moreover have "length (tl (dropWhile is_bracket_char cs)) \<le> length cs"
    using length_dropWhile_le [of is_bracket_char cs] by simp
  ultimately show "(tl xa, c # cs) \<in> measure length" by simp
next
  fix c :: char and cs :: string
  show "(cs, c # cs) \<in> measure length" by simp
qed

definition SCHEMA_DOCS :: "(string \<times> string) list" where
  "SCHEMA_DOCS = [(''complaints'', ''docs/CMPL.txt''), (''recalls'', ''docs/RCL.txt'')]"

definition SCHEMA_OPTIONAL_COLUMNS :: "(string \<times> string list) list" where
  "SCHEMA_OPTIONAL_COLUMNS =
     [(''complaints'', []), (''recalls'', [''do_not_drive'', ''park_outside''])]"

definition SCHEMA_DATE_COLUMNS_OVERRIDES :: "(string \<times> string list) list" where
  "SCHEMA_DATE_COLUMNS_OVERRIDES =
     [(''complaints'', [''faildate'', ''datea'', ''ldate'', ''purch_dt'', ''manuf_dt'']),
      (''recalls'', [''bgman'', ''endman'', ''odate'', ''rcdate'', ''datea''])]"

definition SCHEMA_ENUM_OVERRIDES :: "(string \<times> (string \<times> string list) list) list" where
  "SCHEMA_ENUM_OVERRIDES = [(''recalls'', [(''influenced_by'', [''MFR'', ''OVSC'', ''ODI''])])]"

definition SCHEMA_LENGTH_OVERRIDES :: "(string \<times> (string \<times> nat) list) list" where
  "SCHEMA_LENGTH_OVERRIDES = [(''recalls'', [(''fmvss'', 6)])]"

definition ALLOWED_PIPELINE_EXTRA_COLUMNS :: "string list" where
  "ALLOWED_PIPELINE_EXTRA_COLUMNS = [''source_zip'', ''source_file'']"

text \<open>\<^verbatim>\<open>table.get(key, default)\<close> on a configuration dictionary.\<close>

definition dict_get :: "('k \<times> 'v) list \<Rightarrow> 'k \<Rightarrow> 'v \<Rightarrow> 'v" where
  "dict_get table key dflt = (case map_of table key of None \<Rightarrow> dflt | Some v \<Rightarrow> v)"

section \<open>Generic helpers\<close>

text \<open>\<^verbatim>\<open>re.sub(r"[^a-z0-9]+", "_", text)\<close>: every maximal run of characters outside
  \<^verbatim>\<open>[a-z0-9]\<close> is replaced by one underscore.\<close>

function re_sub_non_alnum :: "string \<Rightarrow> string" where
  "re_sub_non_alnum [] = []"
| "re_sub_non_alnum (c # cs) =
     (if is_lower_alnum c then c # re_sub_non_alnum cs
      else CHR ''_'' # re_sub_non_alnum (dropWhile (\<lambda>d. \<not> is_lower_alnum d) cs))"
  by pat_completeness auto
termination
  by (relation "measure length") (auto simp: length_dropWhile_le less_Suc_eq_le)

text \<open>\<^verbatim>\<open>_normalize_identifier(value)\<close>; the argument is \<^verbatim>\<open>str(value)\<close>.\<close>

definition normalize_identifier :: "string \<Rightarrow> string" where
  "normalize_identifier v =
     (let text = str_lower (str_strip v);
          text = re_sub_non_alnum text;
          text = strip_underscores text
      in if text = [] then ''column'' else text)"

text \<open>No two underscores in a row.\<close>

fun single_underscores :: "string \<Rightarrow> bool" where
  "single_underscores (c # d # cs) =
     ((c \<noteq> CHR ''_'' \<or> d \<noteq> CHR ''_'') \<and> single_underscores (d # cs))"
| "single_underscores cs = True"

definition extract_codes_from_line :: "string \<Rightarrow> string list" where
  "extract_codes_from_line line =
     (case CODE_LINE_PATTERN_match line of None \<Rightarrow> [] | Some g1 \<Rightarrow> [str_upper g1]) @
     filter (\<lambda>cleaned. cleaned \<noteq> [])
       (map (\<lambda>item. str_upper (str_strip item))
         (concat (map (str_split CHR '','') (BRACKET_CODES_PATTERN_finditer (str_upper line)))))"

definition is_probably_blank_line :: "string \<Rightarrow> bool" where
  "is_probably_blank_line line =
     (let stripped = str_strip line
      in stripped = [] \<or> set stripped \<subseteq> {CHR ''='', CHR ''-''})"

section \<open>Schema doc parsing\<close>

text \<open>The dictionary \<^verbatim>\<open>current_field\<close> built for a field row, and the dictionary of a
  normalized field.\<close>

record current_field =
  cf_index :: nat
  cf_name_raw :: string
  cf_name :: string
  cf_type :: string
  cf_size :: nat
  cf_description_lines :: "string list"
  cf_allowed_codes :: "string list"

record field =
  field_index :: nat
  field_name_raw :: string
  field_name :: string
  field_type :: string
  field_size :: nat
  field_description :: string
  field_is_date :: bool
  field_is_yes_no :: bool
  field_allowed_codes :: "string list"

record schema_spec =
  spec_schema_name :: string
  spec_doc_path :: string
  spec_fields :: "field list"
  spec_field_map :: "string \<rightharpoonup> field"
  spec_expected_columns :: "string list"
  spec_required_columns :: "string list"
  spec_optional_columns :: "string list"

text \<open>What \<^verbatim>\<open>_parse_schema_doc\<close> raises.\<close>

datatype parse_failure = FileNotFoundError string | ValueError string

fun exception_text :: "parse_failure \<Rightarrow> string" where
  "exception_text (FileNotFoundError m) = m"
| "exception_text (ValueError m) = m"

text \<open>The two \<^verbatim>\<open>int(...)\<close> calls of a field row, in the order of the source.\<close>

definition new_field :: "string \<times> string \<times> string \<times> string \<times> string \<Rightarrow> string + current_field" where
  "new_field groups =
     (case groups of (g1, g2, g3, g4, g5) \<Rightarrow>
        (case py_int g1 of Inl e \<Rightarrow> Inl e
         | Inr row_index \<Rightarrow>
            (case py_int g4 of Inl e \<Rightarrow> Inl e
             | Inr row_size \<Rightarrow>
                (let row_name_raw = str_strip g2;
                     row_type = str_upper (str_strip g3);
                     description_line = str_strip g5;
                     current = \<lparr>cf_index = row_index, cf_name_raw = row_name_raw,
                                cf_name = normalize_identifier row_name_raw,
                                cf_type = row_type, cf_size = row_size,
                                cf_description_lines = [], cf_allowed_codes = []\<rparr>
                 in Inr (if description_line \<noteq> []
                         then current\<lparr>cf_description_lines := [description_line],
                                      cf_allowed_codes := extract_codes_from_line description_line\<rparr>
                         else current)))))"

definition add_continuation :: "string \<Rightarrow> current_field \<Rightarrow> current_field" where
  "add_continuation continuation current =
     current\<lparr>cf_description_lines := cf_description_lines current @ [continuation],
             cf_allowed_codes := cf_allowed_codes current @ extract_codes_from_line continuation\<rparr>"

text \<open>The loop over the lines. \<^verbatim>\<open>current_field\<close> is \<^verbatim>\<open>None\<close> until the first field row and
  from then on the last element of \<^verbatim>\<open>fields\<close> (here \<open>flds\<close>), which a continuation line
  updates in place.\<close>

fun scan_lines :: "bool \<Rightarrow> current_field list \<Rightarrow> string list \<Rightarrow> string + current_field list" where
  "scan_lines in_field_section flds [] = Inr flds"
| "scan_lines in_field_section flds (line # lines) =
     (if str_contains ''FIELDS:'' line then scan_lines True flds lines
      else if \<not> in_field_section then scan_lines in_field_section flds lines
      else if is_probably_blank_line line then scan_lines in_field_section flds lines
      else case FIELD_ROW_PATTERN_match line of
          Some row_match \<Rightarrow>
            (case new_field row_match of
               Inl e \<Rightarrow> Inl e
             | Inr current \<Rightarrow> scan_lines in_field_section (flds @ [current]) lines)
        | None \<Rightarrow>
            (if flds = [] then scan_lines in_field_section flds lines
             else let continuation = str_strip line
                  in if continuation \<noteq> []
                     then scan_lines in_field_section
                            (butlast flds @ [add_continuation continuation (last flds)]) lines
                     else scan_lines in_field_section flds lines))"

text \<open>The phrase \<^verbatim>\<open>'Y' OR 'N'\<close>, with its apostrophes.\<close>

definition Y_OR_N :: string where
  "Y_OR_N = [CHR 0x27] @ ''Y'' @ [CHR 0x27] @ '' OR '' @ [CHR 0x27] @ ''N'' @ [CHR 0x27]"

definition normalize_field :: "string \<Rightarrow> current_field \<Rightarrow> field" where
  "normalize_field schema_name f =
     (let description_text = str_strip (str_join '' '' (cf_description_lines f));
          allowed_codes = sort (remdups (filter (\<lambda>code. code \<noteq> []) (cf_allowed_codes f)));
          is_date = (cf_name f \<in> set (dict_get SCHEMA_DATE_COLUMNS_OVERRIDES schema_name [])
                     \<or> str_contains ''YYYYMMDD'' (str_upper description_text));
          is_yes_no = (str_contains Y_OR_N (str_upper description_text)
                       \<or> str_contains ''Y/N'' (str_upper description_text))
      in \<lparr>field_index = cf_index f, field_name_raw = cf_name_raw f, field_name = cf_name f,
          field_type = cf_type f, field_size = cf_size f, field_description = description_text,
          field_is_date = is_date, field_is_yes_no = is_yes_no,
          field_allowed_codes = allowed_codes\<rparr>)"

text \<open>\<^verbatim>\<open>_parse_schema_doc(doc_path, schema_name)\<close>. The file system is the map \<open>fs\<close> from a
  path to the text \<^verbatim>\<open>read_text\<close> gives; a path outside its domain does not exist.\<close>

definition build_schema_spec :: "string \<Rightarrow> string \<Rightarrow> current_field list \<Rightarrow> schema_spec" where
  "build_schema_spec doc_path schema_name flds =
     (let normalized_fields = map (normalize_field schema_name) (sort_key cf_index flds);
          expected_columns = map field_name normalized_fields;
          optional_columns = dict_get SCHEMA_OPTIONAL_COLUMNS schema_name [];
          required_columns = filter (\<lambda>name. name \<notin> set optional_columns) expected_columns
      in \<lparr>spec_schema_name = schema_name, spec_doc_path = doc_path,
          spec_fields = normalized_fields,
          spec_field_map = map_of (rev (map (\<lambda>f. (field_name f, f)) normalized_fields)),
          spec_expected_columns = expected_columns,
          spec_required_columns = required_columns,
          spec_optional_columns = sort (remdups optional_columns)\<rparr>)"

definition parse_schema_doc ::
    "(string \<rightharpoonup> string) \<Rightarrow> string \<Rightarrow> string \<Rightarrow> parse_failure + schema_spec" where
  "parse_schema_doc fs doc_path schema_name =
     (case fs doc_path of
        None \<Rightarrow> Inl (FileNotFoundError (''Schema doc not found: '' @ doc_path))
      | Some raw_text \<Rightarrow>
          (case scan_lines False [] (splitlines raw_text) of
             Inl e \<Rightarrow> Inl (ValueError e)
           | Inr flds \<Rightarrow>
               if flds = [] then Inl (ValueError (''No schema flds parsed from '' @ doc_path))
               else Inr (build_schema_spec doc_path schema_name flds)))"

text \<open>\<^verbatim>\<open>_schema_catalog()\<close>: both dictionaries keep the order of \<open>SCHEMA_DOCS\<close>. The cache
  makes the result that of the first call; the file system is taken as fixed.\<close>

record catalog_info =
  catalog_schemas :: "(string \<times> schema_spec) list"
  catalog_errors :: "(string \<times> string) list"

fun schema_catalog_loop ::
    "(string \<rightharpoonup> string) \<Rightarrow> (string \<times> string) list \<Rightarrow> catalog_info \<Rightarrow> catalog_info" where
  "schema_catalog_loop fs [] info = info"
| "schema_catalog_loop fs ((schema_name, doc_path) # docs) info =
     (case parse_schema_doc fs doc_path schema_name of
        Inr spec \<Rightarrow> schema_catalog_loop fs docs
                     (info\<lparr>catalog_schemas := catalog_schemas info @ [(schema_name, spec)]\<rparr>)
      | Inl exc \<Rightarrow> schema_catalog_loop fs docs
                     (info\<lparr>catalog_errors := catalog_errors info @ [(schema_name, exception_text exc)]\<rparr>))"

definition schema_catalog :: "(string \<rightharpoonup> string) \<Rightarrow> catalog_info" where
  "schema_catalog fs =
     schema_catalog_loop fs SCHEMA_DOCS \<lparr>catalog_schemas = [], catalog_errors = []\<rparr>"

text \<open>\<^verbatim>\<open>get_schema_spec\<close> and \<^verbatim>\<open>get_schema_columns\<close>.\<close>

datatype lookup_failure = RuntimeError string | KeyError string

definition list_repr :: "string list \<Rightarrow> string" where
  "list_repr names = ''['' @ str_join '', '' (map (\<lambda>n. [CHR 0x27] @ n @ [CHR 0x27]) names) @ '']''"

definition get_schema_spec :: "(string \<rightharpoonup> string) \<Rightarrow> string \<Rightarrow> lookup_failure + schema_spec" where
  "get_schema_spec fs schema_name =
     (let info = schema_catalog fs
      in case map_of (catalog_errors info) schema_name of
           Some message \<Rightarrow>
             Inl (RuntimeError (''Schema '' @ [CHR 0x27] @ schema_name @ [CHR 0x27]
                                 @ '' could not be parsed: '' @ message))
         | None \<Rightarrow>
             (case map_of (catalog_schemas info) schema_name of
                None \<Rightarrow>
                  Inl (KeyError (''Schema '' @ [CHR 0x27] @ schema_name @ [CHR 0x27]
                                  @ '' not found (available: ''
                                  @ list_repr (sort (map fst (catalog_schemas info))) @ '')''))
              | Some spec \<Rightarrow> Inr spec))"

definition get_schema_columns :: "(string \<rightharpoonup> string) \<Rightarrow> string \<Rightarrow> lookup_failure + string list" where
  "get_schema_columns fs schema_name =
     (case get_schema_spec fs schema_name of
        Inl e \<Rightarrow> Inl e
      | Inr spec \<Rightarrow> Inr (spec_expected_columns spec))"

section \<open>Datasets\<close>

text \<open>
  A column holds raw text, with \<open>None\<close> for a missing value, or it holds values already
  parsed to timestamps (a column of dtype \<^verbatim>\<open>datetime64\<close>), each a number of nanoseconds
  since the epoch, with \<open>None\<close> for \<^verbatim>\<open>NaT\<close>. A dataset is an ordered mapping from column
  names to columns: an association list with pairwise different keys, in column order.
\<close>

datatype series = RawText "string option list" | ParsedDate "int option list"

type_synonym dataframe = "(string, series) alist"

datatype cell = NA | Str string | Timestamp int

fun series_cells :: "series \<Rightarrow> cell list" where
  "series_cells (RawText vs) = map (\<lambda>v. case v of None \<Rightarrow> NA | Some t \<Rightarrow> Str t) vs"
| "series_cells (ParsedDate vs) = map (\<lambda>v. case v of None \<Rightarrow> NA | Some t \<Rightarrow> Timestamp t) vs"

definition df_columns :: "dataframe \<Rightarrow> string list" where
  "df_columns df = map fst (DAList.impl_of df)"

text \<open>\<^verbatim>\<open>len(df)\<close>: the number of rows.\<close>

definition df_len :: "dataframe \<Rightarrow> nat" where
  "df_len df = (case DAList.impl_of df of [] \<Rightarrow> 0 | (_, s) # _ \<Rightarrow> length (series_cells s))"

text \<open>\<^verbatim>\<open>df[column]\<close> for a column of the frame; the source only asks for columns it has
  found in \<^verbatim>\<open>df.columns\<close>, and a missing one would be a \<^verbatim>\<open>KeyError\<close>.\<close>

definition df_getitem :: "dataframe \<Rightarrow> string \<Rightarrow> series option" where
  "df_getitem df column = DAList.lookup df column"

text \<open>\<^verbatim>\<open>series.notna()\<close>, \<^verbatim>\<open>mask.sum()\<close>, \<^verbatim>\<open>series[mask]\<close>, \<^verbatim>\<open>series.dropna()\<close> and
  \<^verbatim>\<open>series.duplicated().sum()\<close>, the number of values equal to an earlier one.\<close>

definition notna :: "'a option list \<Rightarrow> bool list" where
  "notna vs = map (\<lambda>v. v \<noteq> None) vs"

definition mask_sum :: "bool list \<Rightarrow> nat" where
  "mask_sum flags = length (filter id flags)"

definition select :: "'a list \<Rightarrow> bool list \<Rightarrow> 'a list" where
  "select vs flags = map fst (filter snd (zip vs flags))"

definition dropna :: "'a option list \<Rightarrow> 'a list" where
  "dropna vs = List.map_filter id vs"

definition duplicated_sum :: "'a list \<Rightarrow> nat" where
  "duplicated_sum vs = length vs - length (remdups vs)"

text \<open>A row of the frame, and \<^verbatim>\<open>df.duplicated().sum()\<close>.\<close>

definition df_rows :: "dataframe \<Rightarrow> cell list list" where
  "df_rows df =
     map (\<lambda>i. map (\<lambda>(_, s). if i < length (series_cells s) then series_cells s ! i else NA)
                  (DAList.impl_of df))
         [0..<df_len df]"

section \<open>The pandas parsers\<close>

text \<open>
  Three conversions are left to pandas and are parameters of the model:
  \<^item> \<open>to_numeric pd text\<close> is the value of \<^verbatim>\<open>pd.to_numeric(text, errors="coerce")\<close> on one
    string: \<open>None\<close> for \<^verbatim>\<open>NaN\<close> (the text is not a number), else the number read;
  \<^item> \<open>to_datetime pd text\<close> tells whether
    \<^verbatim>\<open>pd.to_datetime(text, format="%Y%m%d", errors="coerce")\<close> is a date and not \<^verbatim>\<open>NaT\<close>;
  \<^item> \<open>astype_string pd values\<close> is \<^verbatim>\<open>astype("string")\<close> on a column of timestamps.
  A parsed number is a rational or an infinity; the arithmetic of the source on it is
  exact here.
\<close>

datatype numeric = Finite rat | Infinite

record pandas =
  to_numeric :: "string \<Rightarrow> numeric option"
  to_datetime :: "string \<Rightarrow> bool"
  astype_string :: "int option list \<Rightarrow> string option list"

text \<open>A real calendar date written \<^verbatim>\<open>YYYYMMDD\<close>: the year is at least 1, the month is
  from 1 to 12 and the day exists in that month of that year.\<close>

definition is_leap_year :: "nat \<Rightarrow> bool" where
  "is_leap_year y \<longleftrightarrow> y mod 4 = 0 \<and> (y mod 100 \<noteq> 0 \<or> y mod 400 = 0)"

definition days_in_month :: "nat \<Rightarrow> nat \<Rightarrow> nat" where
  "days_in_month y m =
     (if m = 2 then (if is_leap_year y then 29 else 28)
      else if m \<in> {4, 6, 9, 11} then 30 else 31)"

definition digits_value :: "string \<Rightarrow> nat" where
  "digits_value s = foldl (\<lambda>n c. 10 * n + digit_val c) 0 s"

definition is_calendar_date :: "string \<Rightarrow> bool" where
  "is_calendar_date t =
     (let y = digits_value (take 4 t);
          m = digits_value (take 2 (drop 4 t));
          d = digits_value (drop 6 t)
      in 1 \<le> y \<and> 1 \<le> m \<and> m \<le> 12 \<and> 1 \<le> d \<and> d \<le> days_in_month y m)"

definition is_datetime64_any_dtype :: "series \<Rightarrow> bool" where
  "is_datetime64_any_dtype s = (case s of ParsedDate _ \<Rightarrow> True | RawText _ \<Rightarrow> False)"

text \<open>\<^verbatim>\<open>series.notna().sum()\<close> and \<^verbatim>\<open>series.isna().sum()\<close> on a column.\<close>

definition series_notna_sum :: "series \<Rightarrow> nat" where
  "series_notna_sum s = length (filter (\<lambda>c. c \<noteq> NA) (series_cells s))"

definition series_isna_sum :: "series \<Rightarrow> nat" where
  "series_isna_sum s = length (filter (\<lambda>c. c = NA) (series_cells s))"

text \<open>\<^verbatim>\<open>pd.to_numeric(series, errors="coerce")\<close> on a column: text is parsed value by
  value; timestamps are read as their 64-bit integers, \<^verbatim>\<open>NaT\<close> being the least one.\<close>

fun series_to_numeric :: "pandas \<Rightarrow> series \<Rightarrow> numeric option list" where
  "series_to_numeric pd (RawText vs) =
     map (\<lambda>v. case v of None \<Rightarrow> None | Some t \<Rightarrow> to_numeric pd t) vs"
| "series_to_numeric pd (ParsedDate vs) =
     map (\<lambda>v. case v of None \<Rightarrow> Some (Finite (- (2 ^ 63))) | Some t \<Rightarrow> Some (Finite (of_int t))) vs"

section \<open>Field validation helpers\<close>

definition clean_text_series :: "pandas \<Rightarrow> series \<Rightarrow> string option list" where
  "clean_text_series pd s =
     (let text = (case s of RawText vs \<Rightarrow> vs | ParsedDate vs \<Rightarrow> astype_string pd vs);
          text = map (map_option str_strip) text
      in map (\<lambda>v. if v = Some [] then None else v) text)"

definition preview_list :: "string list \<Rightarrow> nat \<Rightarrow> string" where
  "preview_list values' max_items =
     (if values' = [] then ''[]''
      else if length values' \<le> max_items then ''['' @ str_join '', '' values' @ '']''
      else ''['' @ str_join '', '' (take max_items values') @ '', ... +''
           @ str_nat (length values' - max_items) @ '' more]'')"

definition allowed_values_for_field :: "string \<Rightarrow> field \<Rightarrow> string list" where
  "allowed_values_for_field schema_name f =
     (let override_values =
            (case map_of SCHEMA_ENUM_OVERRIDES schema_name of
               None \<Rightarrow> None
             | Some table \<Rightarrow> map_of table (field_name f))
      in if override_values \<noteq> None \<and> override_values \<noteq> Some []
         then sort (remdups (the override_values))
         else if field_is_yes_no f then [''Y'', ''N'']
         else if field_allowed_codes f \<noteq> [] then field_allowed_codes f
         else [])"

record date_report =
  date_checked :: bool
  date_non_null_count :: nat
  placeholder_zero_count :: nat
  invalid_date_count :: nat
  date_invalid_examples :: "string list"

definition is_placeholder :: "string option \<Rightarrow> bool" where
  "is_placeholder v =
     (case v of None \<Rightarrow> False
      | Some t \<Rightarrow> str_upper t \<in> set [''0'', ''00000000'', ''0000-00-00''])"

text \<open>\<^verbatim>\<open>text.str.fullmatch(r"\d{8}").fillna(False)\<close> on one value.\<close>

definition is_eight_digits :: "string option \<Rightarrow> bool" where
  "is_eight_digits v = (case v of None \<Rightarrow> False | Some t \<Rightarrow> length t = 8 \<and> list_all is_digit t)"


definition validate_date_field :: "pandas \<Rightarrow> series \<Rightarrow> date_report" where
  "validate_date_field pd s =
     (let result = \<lparr>date_checked = True, date_non_null_count = 0, placeholder_zero_count = 0,
                     invalid_date_count = 0, date_invalid_examples = []\<rparr>
      in if is_datetime64_any_dtype s
         then result\<lparr>date_non_null_count := series_notna_sum s\<rparr>
         else
           let text = clean_text_series pd s;
               non_null_mask = notna text;
               result = result\<lparr>date_non_null_count := mask_sum non_null_mask\<rparr>
           in if date_non_null_count result = 0 then result
              else
                let zero_mask = map is_placeholder text;
                    result = result\<lparr>placeholder_zero_count := mask_sum zero_mask\<rparr>;
                    check_mask = map2 (\<lambda>n z. n \<and> \<not> z) non_null_mask zero_mask
                in if mask_sum check_mask = 0 then result
                   else
                     let digits_mask = map is_eight_digits text;
                         parseable_isna =
                           map2 (\<lambda>v c. \<not> (c \<and> (case v of None \<Rightarrow> False | Some t \<Rightarrow> to_datetime pd t)))
                                text check_mask;
                         invalid_mask =
                           map2 (\<lambda>c (d, p). c \<and> (\<not> d \<or> p)) check_mask (zip digits_mask parseable_isna);
                         result = result\<lparr>invalid_date_count := mask_sum invalid_mask\<rparr>
                     in if invalid_date_count result > 0
                        then result\<lparr>date_invalid_examples :=
                               take 5 (sort (remdups (dropna (select text invalid_mask))))\<rparr>
                        else result)"

record numeric_report =
  numeric_checked :: bool
  numeric_non_null_count :: nat
  non_numeric_count :: nat
  non_integer_count :: nat
  digits_overflow_count :: nat
  numeric_invalid_examples :: "string list"

text \<open>\<^verbatim>\<open>(value % 1).abs() < 1e-9\<close>; for an infinity the remainder is \<^verbatim>\<open>NaN\<close> and the
  comparison is false.\<close>

definition is_integral :: "numeric \<Rightarrow> bool" where
  "is_integral x = (case x of Finite q \<Rightarrow> \<bar>frac q\<bar> < 1 / 10 ^ 9 | Infinite \<Rightarrow> False)"

definition validate_numeric_field :: "pandas \<Rightarrow> series \<Rightarrow> nat \<Rightarrow> numeric_report" where
  "validate_numeric_field pd s max_digits =
     (let result = \<lparr>numeric_checked = True, numeric_non_null_count = 0, non_numeric_count = 0,
                     non_integer_count = 0, digits_overflow_count = 0,
                     numeric_invalid_examples = []\<rparr>;
          text = clean_text_series pd s;
          non_null_mask = notna text;
          result = result\<lparr>numeric_non_null_count := mask_sum non_null_mask\<rparr>
      in if numeric_non_null_count result = 0 then result
         else
           let numeric_values = map (\<lambda>v. case v of None \<Rightarrow> None | Some t \<Rightarrow> to_numeric pd t) text;
               non_numeric_mask = map2 (\<lambda>n v. n \<and> v = None) non_null_mask numeric_values;
               result = result\<lparr>non_numeric_count := mask_sum non_numeric_mask\<rparr>;
               parseable_mask = map2 (\<lambda>n v. n \<and> v \<noteq> None) non_null_mask numeric_values;
               result =
                 (if mask_sum parseable_mask > 0
                  then
                    let parseable_values = dropna (select numeric_values parseable_mask);
                        integer_mask = map is_integral parseable_values;
                        digit_lengths =
                          map (\<lambda>t. length (filter is_digit t)) (dropna (select text parseable_mask));
                        overflow_mask = map (\<lambda>n. n > max_digits) digit_lengths
                    in result\<lparr>non_integer_count := mask_sum (map Not integer_mask),
                              digits_overflow_count := mask_sum overflow_mask\<rparr>
                  else result);
               total_invalid_mask =
                 (if mask_sum parseable_mask > 0
                  then map2 (\<lambda>m (p, v). m \<or> (p \<and> (case v of None \<Rightarrow> False | Some x \<Rightarrow> \<not> is_integral x)))
                         non_numeric_mask (zip parseable_mask numeric_values)
                  else non_numeric_mask)
           in if non_numeric_count result > 0 \<or> non_integer_count result > 0
              then result\<lparr>numeric_invalid_examples :=
                     take 5 (sort (remdups (dropna (select text total_invalid_mask))))\<rparr>
              else result)"

record char_report =
  char_checked :: bool
  char_non_null_count :: nat
  too_long_count :: nat
  max_observed_length :: nat

definition validate_char_length :: "pandas \<Rightarrow> series \<Rightarrow> nat \<Rightarrow> bool \<Rightarrow> char_report" where
  "validate_char_length pd s max_length allow_datetime =
     (let result = \<lparr>char_checked = True, char_non_null_count = 0, too_long_count = 0,
                     max_observed_length = 0\<rparr>
      in if allow_datetime \<and> is_datetime64_any_dtype s then result\<lparr>char_checked := False\<rparr>
         else
           let text = clean_text_series pd s;
               non_null_mask = notna text;
               result = result\<lparr>char_non_null_count := mask_sum non_null_mask\<rparr>
           in if char_non_null_count result = 0 then result
              else
                let lengths = map length (dropna (select text non_null_mask))
                in if length lengths = 0 then result
                   else result\<lparr>max_observed_length := Max (set lengths),
                               too_long_count := mask_sum (map (\<lambda>n. n > max_length) lengths)\<rparr>)"

record enum_report =
  enum_checked :: bool
  enum_non_null_count :: nat
  invalid_value_count :: nat
  enum_invalid_examples :: "string list"

definition validate_enum_field :: "pandas \<Rightarrow> series \<Rightarrow> string list \<Rightarrow> enum_report" where
  "validate_enum_field pd s allowed_values =
     (let result = \<lparr>enum_checked = True, enum_non_null_count = 0, invalid_value_count = 0,
                     enum_invalid_examples = []\<rparr>
      in if allowed_values = [] then result\<lparr>enum_checked := False\<rparr>
         else
           let text = clean_text_series pd s;
               normalized = map (map_option str_upper) text;
               non_null_mask = notna normalized;
               result = result\<lparr>enum_non_null_count := mask_sum non_null_mask\<rparr>
           in if enum_non_null_count result = 0 then result
              else
                let allowed_set = set (map str_upper allowed_values);
                    invalid_mask =
                      map2 (\<lambda>n v. n \<and> \<not> (case v of None \<Rightarrow> False | Some u \<Rightarrow> u \<in> allowed_set))
                           non_null_mask normalized;
                    result = result\<lparr>invalid_value_count := mask_sum invalid_mask\<rparr>
                in if invalid_value_count result > 0
                   then result\<lparr>enum_invalid_examples :=
                          take 8 (sort (remdups (dropna (select normalized invalid_mask))))\<rparr>
                   else result)"

section \<open>Schema detection\<close>

text \<open>The overlap and the score of a collection of column names against one schema:
  \<^verbatim>\<open>len(column_set & expected_set)\<close> and \<^verbatim>\<open>overlap / max(len(expected_set), 1)\<close>. The score
  is a float in the source and the exact quotient here.\<close>

definition overlap_with :: "string list \<Rightarrow> schema_spec \<Rightarrow> nat" where
  "overlap_with cols spec = card (set cols \<inter> set (spec_expected_columns spec))"

definition score_against :: "string list \<Rightarrow> schema_spec \<Rightarrow> rat" where
  "score_against cols spec =
     of_nat (overlap_with cols spec) / of_nat (max (card (set (spec_expected_columns spec))) 1)"

text \<open>The loop of \<^verbatim>\<open>_detect_schema_name\<close> over the catalog, carrying
  \<^verbatim>\<open>(best_schema_name, best_score, best_overlap)\<close>.\<close>

fun detect_loop ::
    "string list \<Rightarrow> (string \<times> schema_spec) list \<Rightarrow> string option \<times> rat \<times> nat
     \<Rightarrow> string option \<times> rat \<times> nat" where
  "detect_loop cols [] best = best"
| "detect_loop cols ((name, spec) # catalog) (best_schema_name, best_score, best_overlap) =
     (let overlap = overlap_with cols spec;
          score = score_against cols spec
      in if score > best_score
         then detect_loop cols catalog (Some name, score, overlap)
         else detect_loop cols catalog (best_schema_name, best_score, best_overlap))"

definition detect_schema_name ::
    "(string \<rightharpoonup> string) \<Rightarrow> string list \<Rightarrow> string option \<times> rat \<times> nat" where
  "detect_schema_name fs cols =
     (case detect_loop cols (catalog_schemas (schema_catalog fs)) (None, 0, 0) of
        (best_schema_name, best_score, best_overlap) \<Rightarrow>
          if best_score < 35 / 100 then (None, best_score, best_overlap)
          else (best_schema_name, best_score, best_overlap))"

definition COMMON_ODI_COMPLAINT_ID_COLUMNS :: "string list" where
  "COMMON_ODI_COMPLAINT_ID_COLUMNS = [''odi_number'', ''odino'', ''cmplid'', ''complaint_number'']"

definition MODEL_YEAR_COLUMN_CANDIDATES :: "string list" where
  "MODEL_YEAR_COLUMN_CANDIDATES = [''model_year'', ''modelyear'', ''veh_year'', ''year'']"

definition find_id_column :: "dataframe \<Rightarrow> string option" where
  "find_id_column df =
     (case filter (\<lambda>c. c \<in> set (df_columns df)) COMMON_ODI_COMPLAINT_ID_COLUMNS of
        c # _ \<Rightarrow> Some c
      | [] \<Rightarrow> if ''record_id'' \<in> set (df_columns df) then Some ''record_id'' else None)"

definition find_model_year_column :: "dataframe \<Rightarrow> string option" where
  "find_model_year_column df =
     (if ''yeartxt'' \<in> set (df_columns df) then Some ''yeartxt''
      else case filter (\<lambda>c. c \<in> set (df_columns df)) MODEL_YEAR_COLUMN_CANDIDATES of
             c # _ \<Rightarrow> Some c
           | [] \<Rightarrow> None)"

section \<open>Report builder\<close>

text \<open>
  The messages of a report. The lists \<^verbatim>\<open>warnings\<close> and \<^verbatim>\<open>errors\<close> hold each message as its
  kind and the values formatted into it; \<open>render_message\<close> is the text the source
  appends.
\<close>

datatype message =
    CouldNotParseSchemaDoc string string
  | MissingRequiredColumns string "string list"
  | UnexpectedExtraColumns "string list"
  | ColumnOrderDiffers
  | NonNumericValues string nat
  | NonIntegerValues string nat
  | DigitsOverflow string nat nat
  | InvalidDates string nat
  | PlaceholderDates string nat
  | LegacyLengthOverflow string nat nat nat
  | LengthOverflow string nat nat
  | EnumMismatch string nat
  | SchemaNotAvailable string
  | NoSchemaMatched
  | ModelYearOutOfRange string nat

text \<open>\<^verbatim>\<open>f"{n:,}"\<close>: the digits in groups of three.\<close>

function format_thousands :: "nat \<Rightarrow> string" where
  "format_thousands n =
     (if n < 1000 then str_nat n
      else format_thousands (n div 1000) @ '',''
           @ [digit_char (n mod 1000 div 100), digit_char (n mod 100 div 10), digit_char (n mod 10)])"
  by pat_completeness auto
termination
  by (relation "measure id") auto

declare format_thousands.simps [simp del]

fun render_message :: "message \<Rightarrow> string" where
  "render_message (CouldNotParseSchemaDoc failed_schema_name m) =
     ''Could not parse schema doc for '' @ failed_schema_name @ '': '' @ m"
| "render_message (MissingRequiredColumns detected missing_required) =
     ''Missing required columns for '' @ detected @ '': '' @ preview_list missing_required 8"
| "render_message (UnexpectedExtraColumns unexpected) =
     ''Unexpected extra columns: '' @ preview_list unexpected 8"
| "render_message ColumnOrderDiffers =
     ''Expected columns are present but column order differs from schema doc''"
| "render_message (NonNumericValues column_name n) =
     column_name @ '': '' @ format_thousands n @ '' non-numeric values''"
| "render_message (NonIntegerValues column_name n) =
     column_name @ '': '' @ format_thousands n @ '' non-integer numeric values''"
| "render_message (DigitsOverflow column_name n size') =
     column_name @ '': '' @ format_thousands n @ '' values exceed NUMBER('' @ str_nat size'
     @ '') digit length''"
| "render_message (InvalidDates column_name n) =
     column_name @ '': '' @ format_thousands n @ '' invalid YYYYMMDD date values''"
| "render_message (PlaceholderDates column_name n) =
     column_name @ '': '' @ format_thousands n @ '' placeholder zero date values''"
| "render_message (LegacyLengthOverflow column_name n size' allowed_max_length) =
     column_name @ '': '' @ format_thousands n @ '' values exceed doc CHAR('' @ str_nat size'
     @ '') length (allowed legacy max '' @ str_nat allowed_max_length @ '')''"
| "render_message (LengthOverflow column_name n allowed_max_length) =
     column_name @ '': '' @ format_thousands n @ '' values exceed CHAR(''
     @ str_nat allowed_max_length @ '')''"
| "render_message (EnumMismatch column_name n) =
     column_name @ '': '' @ format_thousands n @ '' values outside documented codes''"
| "render_message (SchemaNotAvailable detected) =
     ''Schema '' @ [CHR 0x27] @ detected @ [CHR 0x27] @ '' requested but not available''"
| "render_message NoSchemaMatched =
     ''Could not confidently match dataset columns to complaints or recalls schema''"
| "render_message (ModelYearOutOfRange model_year_column n) =
     model_year_column @ '': '' @ format_thousands n
     @ '' values outside expected range (1900-2100 or 9999)''"

record issue_counts =
  date_invalid_total :: nat
  date_zero_placeholder_total :: nat
  numeric_non_numeric_total :: nat
  numeric_non_integer_total :: nat
  numeric_digits_overflow_total :: nat
  char_length_overflow_total :: nat
  enum_invalid_total :: nat

record column_report =
  column_type :: string
  column_size :: nat
  column_numeric :: "numeric_report option"
  column_date :: "date_report option"
  column_char_length :: "char_report option"
  column_enum :: "enum_report option"

record report =
  report_dataset_name :: string
  report_rows :: nat
  report_columns :: nat
  report_duplicate_rows :: "nat option"
  report_id_column_found :: "string option"
  report_id_null_count :: "nat option"
  report_id_duplicate_count :: "nat option"
  report_model_year_column_found :: "string option"
  report_model_year_out_of_range_count :: "nat option"
  report_schema_name :: "string option"
  report_schema_doc_path :: "string option"
  report_schema_match_score :: "rat option"
  report_expected_columns :: "nat option"
  report_present_expected_columns :: "nat option"
  report_missing_columns :: "string list"
  report_missing_optional_columns :: "string list"
  report_extra_columns :: "string list"
  report_unexpected_extra_columns :: "string list"
  report_column_order_matches_expected :: "bool option"
  report_field_checks :: "(string \<times> column_report) list"
  report_field_issue_counts :: issue_counts
  report_warnings :: "message list"
  report_errors :: "message list"

definition add_warning :: "message \<Rightarrow> report \<Rightarrow> report" where
  "add_warning m r = r\<lparr>report_warnings := report_warnings r @ [m]\<rparr>"

definition add_error :: "message \<Rightarrow> report \<Rightarrow> report" where
  "add_error m r = r\<lparr>report_errors := report_errors r @ [m]\<rparr>"

text \<open>The three blocks of the loop body over the present expected columns; each takes
  and returns \<^verbatim>\<open>column_report\<close> and \<^verbatim>\<open>report\<close>.\<close>

definition check_numeric ::
    "pandas \<Rightarrow> string \<Rightarrow> field \<Rightarrow> series \<Rightarrow> column_report \<times> report \<Rightarrow> column_report \<times> report" where
  "check_numeric pd column_name f s state =
     (case state of (col, r) \<Rightarrow>
        if field_type f = ''NUMBER'' then
          let numeric_report = validate_numeric_field pd s (field_size f);
              col = col\<lparr>column_numeric := Some numeric_report\<rparr>;
              counts = report_field_issue_counts r;
              counts = counts\<lparr>numeric_non_numeric_total :=
                         numeric_non_numeric_total counts + non_numeric_count numeric_report\<rparr>;
              counts = counts\<lparr>numeric_non_integer_total :=
                         numeric_non_integer_total counts + non_integer_count numeric_report\<rparr>;
              counts = counts\<lparr>numeric_digits_overflow_total :=
                         numeric_digits_overflow_total counts + digits_overflow_count numeric_report\<rparr>;
              r = r\<lparr>report_field_issue_counts := counts\<rparr>;
              r = (if non_numeric_count numeric_report > 0
                   then add_error (NonNumericValues column_name (non_numeric_count numeric_report)) r
                   else r);
              r = (if non_integer_count numeric_report > 0
                   then add_warning (NonIntegerValues column_name (non_integer_count numeric_report)) r
                   else r);
              r = (if digits_overflow_count numeric_report > 0
                   then add_warning (DigitsOverflow column_name (digits_overflow_count numeric_report)
                                       (field_size f)) r
                   else r)
          in (col, r)
        else (col, r))"

definition check_date ::
    "pandas \<Rightarrow> string \<Rightarrow> field \<Rightarrow> series \<Rightarrow> column_report \<times> report \<Rightarrow> column_report \<times> report" where
  "check_date pd column_name f s state =
     (case state of (col, r) \<Rightarrow>
        if field_is_date f then
          let date_report = validate_date_field pd s;
              col = col\<lparr>column_date := Some date_report\<rparr>;
              counts = report_field_issue_counts r;
              counts = counts\<lparr>date_invalid_total :=
                         date_invalid_total counts + invalid_date_count date_report\<rparr>;
              counts = counts\<lparr>date_zero_placeholder_total :=
                         date_zero_placeholder_total counts + placeholder_zero_count date_report\<rparr>;
              r = r\<lparr>report_field_issue_counts := counts\<rparr>;
              r = (if invalid_date_count date_report > 0
                   then add_error (InvalidDates column_name (invalid_date_count date_report)) r
                   else r);
              r = (if placeholder_zero_count date_report > 0
                   then add_warning (PlaceholderDates column_name (placeholder_zero_count date_report)) r
                   else r)
          in (col, r)
        else (col, r))"

definition check_char ::
    "pandas \<Rightarrow> string \<Rightarrow> string \<Rightarrow> field \<Rightarrow> series \<Rightarrow> column_report \<times> report
     \<Rightarrow> column_report \<times> report" where
  "check_char pd detected column_name f s state =
     (case state of (col, r) \<Rightarrow>
        if field_type f = ''CHAR'' then
          let schema_length_overrides = dict_get SCHEMA_LENGTH_OVERRIDES detected [];
              allowed_max_length = dict_get schema_length_overrides column_name (field_size f);
              char_report = validate_char_length pd s allowed_max_length (field_is_date f);
              col = col\<lparr>column_char_length := Some char_report\<rparr>;
              counts = report_field_issue_counts r;
              counts = counts\<lparr>char_length_overflow_total :=
                         char_length_overflow_total counts + too_long_count char_report\<rparr>;
              r = r\<lparr>report_field_issue_counts := counts\<rparr>;
              r = (if too_long_count char_report > 0
                   then (if allowed_max_length \<noteq> field_size f
                         then add_warning (LegacyLengthOverflow column_name (too_long_count char_report)
                                             (field_size f) allowed_max_length) r
                         else add_error (LengthOverflow column_name (too_long_count char_report)
                                           allowed_max_length) r)
                   else r);
              allowed_values = allowed_values_for_field detected f;
              enum_report = validate_enum_field pd s allowed_values;
              col = col\<lparr>column_enum := Some enum_report\<rparr>;
              counts = report_field_issue_counts r;
              counts = counts\<lparr>enum_invalid_total :=
                         enum_invalid_total counts + invalid_value_count enum_report\<rparr>;
              r = r\<lparr>report_field_issue_counts := counts\<rparr>;
              r = (if invalid_value_count enum_report > 0
                   then add_warning (EnumMismatch column_name (invalid_value_count enum_report)) r
                   else r)
          in (col, r)
        else (col, r))"

text \<open>One turn of the loop. The two subscripts \<^verbatim>\<open>field_map[column_name]\<close> and
  \<^verbatim>\<open>df[column_name]\<close> raise \<^verbatim>\<open>KeyError\<close> on a key that is not there.\<close>

definition check_column ::
    "pandas \<Rightarrow> dataframe \<Rightarrow> schema_spec \<Rightarrow> string \<Rightarrow> string \<Rightarrow> report \<Rightarrow> lookup_failure + report" where
  "check_column pd df spec detected column_name r =
     (case spec_field_map spec column_name of
        None \<Rightarrow> Inl (KeyError column_name)
      | Some f \<Rightarrow>
          (case df_getitem df column_name of
             None \<Rightarrow> Inl (KeyError column_name)
           | Some s \<Rightarrow>
               (let col = \<lparr>column_type = field_type f, column_size = field_size f,
                            column_numeric = None, column_date = None,
                            column_char_length = None, column_enum = None\<rparr>;
                    state = check_numeric pd column_name f s (col, r);
                    state = check_date pd column_name f s state;
                    state = check_char pd detected column_name f s state
                in Inr ((snd state)\<lparr>report_field_checks :=
                          AList.update column_name (fst state) (report_field_checks (snd state))\<rparr>))))"

fun check_columns ::
    "pandas \<Rightarrow> dataframe \<Rightarrow> schema_spec \<Rightarrow> string \<Rightarrow> string list \<Rightarrow> report \<Rightarrow> lookup_failure + report" where
  "check_columns pd df spec detected [] r = Inr r"
| "check_columns pd df spec detected (column_name # present_expected) r =
     (case check_column pd df spec detected column_name r of
        Inl e \<Rightarrow> Inl e
      | Inr r' \<Rightarrow> check_columns pd df spec detected present_expected r')"

text \<open>The branch \<^verbatim>\<open>if schema_spec:\<close> of \<^verbatim>\<open>collect_schema_report\<close>.\<close>

definition check_against_schema ::
    "pandas \<Rightarrow> dataframe \<Rightarrow> schema_spec \<Rightarrow> string \<Rightarrow> report \<Rightarrow> lookup_failure + report" where
  "check_against_schema pd df spec detected r =
     (let expected_cols = spec_expected_columns spec;
          present_expected = filter (\<lambda>c. c \<in> set (df_columns df)) expected_cols;
          missing_required = filter (\<lambda>c. c \<notin> set (df_columns df)) (spec_required_columns spec);
          missing_optional = filter (\<lambda>c. c \<notin> set (df_columns df)) (spec_optional_columns spec);
          extra_cols = filter (\<lambda>c. c \<notin> set expected_cols) (df_columns df);
          unexpected_extra_cols =
            filter (\<lambda>c. c \<notin> set ALLOWED_PIPELINE_EXTRA_COLUMNS) extra_cols;
          actual_expected_order = filter (\<lambda>c. c \<in> set expected_cols) (df_columns df);
          r = r\<lparr>report_schema_doc_path := Some (spec_doc_path spec),
                 report_expected_columns := Some (length expected_cols),
                 report_present_expected_columns := Some (length present_expected),
                 report_missing_columns := missing_required,
                 report_missing_optional_columns := missing_optional,
                 report_extra_columns := extra_cols,
                 report_unexpected_extra_columns := unexpected_extra_cols,
                 report_column_order_matches_expected :=
                   Some (actual_expected_order = present_expected)\<rparr>;
          r = (if missing_required \<noteq> []
               then add_error (MissingRequiredColumns detected missing_required) r else r);
          r = (if unexpected_extra_cols \<noteq> []
               then add_warning (UnexpectedExtraColumns unexpected_extra_cols) r else r);
          r = (if report_column_order_matches_expected r = Some False
               then add_warning ColumnOrderDiffers r else r)
      in check_columns pd df spec detected present_expected r)"

text \<open>The identifier column and the model year column, after the schema checks.\<close>

definition check_id_column :: "dataframe \<Rightarrow> report \<Rightarrow> lookup_failure + report" where
  "check_id_column df r =
     (case find_id_column df of
        None \<Rightarrow> Inr r
      | Some id_column \<Rightarrow>
          (case df_getitem df id_column of
             None \<Rightarrow> Inl (KeyError id_column)
           | Some s \<Rightarrow>
               (let r = r\<lparr>report_id_column_found := Some id_column,
                           report_id_null_count := Some (series_isna_sum s)\<rparr>
                in Inr (if df_len df \<le> 1000000
                        then r\<lparr>report_id_duplicate_count := Some (duplicated_sum (series_cells s))\<rparr>
                        else r))))"

definition in_model_year_range :: "numeric \<Rightarrow> bool" where
  "in_model_year_range x =
     (case x of Finite q \<Rightarrow> q = 9999 \<or> (1900 \<le> q \<and> q \<le> 2100) | Infinite \<Rightarrow> False)"

definition check_model_year :: "pandas \<Rightarrow> dataframe \<Rightarrow> report \<Rightarrow> lookup_failure + report" where
  "check_model_year pd df r =
     (case find_model_year_column df of
        None \<Rightarrow> Inr r
      | Some model_year_column \<Rightarrow>
          (case df_getitem df model_year_column of
             None \<Rightarrow> Inl (KeyError model_year_column)
           | Some s \<Rightarrow>
               (let values' = series_to_numeric pd s;
                    invalid =
                      map (\<lambda>v. case v of None \<Rightarrow> False | Some x \<Rightarrow> \<not> in_model_year_range x) values';
                    r = r\<lparr>report_model_year_column_found := Some model_year_column,
                           report_model_year_out_of_range_count := Some (mask_sum invalid)\<rparr>
                in Inr (if mask_sum invalid > 0
                        then add_warning (ModelYearOutOfRange model_year_column (mask_sum invalid)) r
                        else r))))"

text \<open>\<^verbatim>\<open>collect_schema_report(df, dataset_name, schema_name=None)\<close>. The optional argument
  is \<open>None\<close> for auto-detection.\<close>

definition initial_report :: "dataframe \<Rightarrow> string \<Rightarrow> report" where
  "initial_report df name =
     \<lparr>report_dataset_name = name,
      report_rows = df_len df,
      report_columns = length (df_columns df),
      report_duplicate_rows =
        (if df_len df \<le> 500000 then Some (duplicated_sum (df_rows df)) else None),
      report_id_column_found = None, report_id_null_count = None,
      report_id_duplicate_count = None, report_model_year_column_found = None,
      report_model_year_out_of_range_count = None, report_schema_name = None,
      report_schema_doc_path = None, report_schema_match_score = None,
      report_expected_columns = None, report_present_expected_columns = None,
      report_missing_columns = [], report_missing_optional_columns = [],
      report_extra_columns = [], report_unexpected_extra_columns = [],
      report_column_order_matches_expected = None, report_field_checks = [],
      report_field_issue_counts =
        \<lparr>date_invalid_total = 0, date_zero_placeholder_total = 0,
         numeric_non_numeric_total = 0, numeric_non_integer_total = 0,
         numeric_digits_overflow_total = 0, char_length_overflow_total = 0,
         enum_invalid_total = 0\<rparr>,
      report_warnings = [], report_errors = []\<rparr>"

text \<open>The schema to check against: the name, the score and the overlap, as detected
  or as asked for.\<close>

definition resolve_schema ::
    "(string \<rightharpoonup> string) \<Rightarrow> dataframe \<Rightarrow> string option \<Rightarrow> string option \<times> rat \<times> nat" where
  "resolve_schema fs df requested =
     (case requested of
        None \<Rightarrow> detect_schema_name fs (df_columns df)
      | Some name \<Rightarrow>
          (case map_of (catalog_schemas (schema_catalog fs)) name of
             Some spec \<Rightarrow>
               (Some name, score_against (df_columns df) spec, overlap_with (df_columns df) spec)
           | None \<Rightarrow> (Some name, 0, 0)))"

definition collect_schema_report ::
    "pandas \<Rightarrow> (string \<rightharpoonup> string) \<Rightarrow> dataframe \<Rightarrow> string \<Rightarrow> string option
     \<Rightarrow> lookup_failure + report" where
  "collect_schema_report pd fs df name requested =
     (let r = initial_report df name;
          catalog_info = schema_catalog fs;
          catalog = catalog_schemas catalog_info;
          r = r\<lparr>report_warnings := report_warnings r
                 @ map (\<lambda>(failed_schema_name, m). CouldNotParseSchemaDoc failed_schema_name m)
                       (catalog_errors catalog_info)\<rparr>
      in case resolve_schema fs df requested of
           (detected_schema_name, match_score, overlap_count) \<Rightarrow>
             (let r = r\<lparr>report_schema_name := detected_schema_name,
                         report_schema_match_score := Some match_score\<rparr>;
                  checked =
                    (case detected_schema_name of
                       None \<Rightarrow> Inr (add_warning NoSchemaMatched r)
                     | Some detected \<Rightarrow>
                         (case (if detected = [] then None else map_of catalog detected) of
                            Some spec \<Rightarrow> check_against_schema pd df spec detected r
                          | None \<Rightarrow>
                              Inr (if detected \<noteq> [] \<and> map_of catalog detected = None
                                   then add_warning (SchemaNotAvailable detected) r
                                   else r)))
              in case checked of
                   Inl e \<Rightarrow> Inl e
                 | Inr r \<Rightarrow>
                     (case check_id_column df r of
                        Inl e \<Rightarrow> Inl e
                      | Inr r \<Rightarrow> check_model_year pd df r)))"

section \<open>Errors and warnings, in the spec's words\<close>

text \<open>
  The spec sorts the violations of a column into errors (non-numeric values in a numeric
  field, invalid dates, length overflow where no legacy length differs from the declared
  size) and warnings (non-integer values, digit overflow, placeholder dates, length
  overflow under a legacy length, values outside the documented codes). The following
  lists give, for the check results of one column, the messages the spec asks for.
\<close>

definition numeric_error_messages :: "string \<Rightarrow> numeric_report \<Rightarrow> message list" where
  "numeric_error_messages c nr =
     (if non_numeric_count nr > 0 then [NonNumericValues c (non_numeric_count nr)] else [])"

definition numeric_warning_messages :: "string \<Rightarrow> nat \<Rightarrow> numeric_report \<Rightarrow> message list" where
  "numeric_warning_messages c declared nr =
     (if non_integer_count nr > 0 then [NonIntegerValues c (non_integer_count nr)] else []) @
     (if digits_overflow_count nr > 0 then [DigitsOverflow c (digits_overflow_count nr) declared] else [])"

definition date_error_messages :: "string \<Rightarrow> date_report \<Rightarrow> message list" where
  "date_error_messages c dr =
     (if invalid_date_count dr > 0 then [InvalidDates c (invalid_date_count dr)] else [])"

definition date_warning_messages :: "string \<Rightarrow> date_report \<Rightarrow> message list" where
  "date_warning_messages c dr =
     (if placeholder_zero_count dr > 0 then [PlaceholderDates c (placeholder_zero_count dr)] else [])"

definition length_error_messages :: "string \<Rightarrow> nat \<Rightarrow> nat \<Rightarrow> char_report \<Rightarrow> message list" where
  "length_error_messages c declared allowed lr =
     (if too_long_count lr > 0 \<and> allowed = declared
      then [LengthOverflow c (too_long_count lr) allowed] else [])"

definition length_warning_messages :: "string \<Rightarrow> nat \<Rightarrow> nat \<Rightarrow> char_report \<Rightarrow> message list" where
  "length_warning_messages c declared allowed lr =
     (if too_long_count lr > 0 \<and> allowed \<noteq> declared
      then [LegacyLengthOverflow c (too_long_count lr) declared allowed] else [])"

definition enum_warning_messages :: "string \<Rightarrow> enum_report \<Rightarrow> message list" where
  "enum_warning_messages c er =
     (if invalid_value_count er > 0 then [EnumMismatch c (invalid_value_count er)] else [])"

text \<open>The length allowed for a column: the legacy length of the schema's override table,
  or the declared size.\<close>

definition allowed_length :: "string \<Rightarrow> string \<Rightarrow> nat \<Rightarrow> nat" where
  "allowed_length detected c declared =
     dict_get (dict_get SCHEMA_LENGTH_OVERRIDES detected []) c declared"

definition column_error_messages :: "string \<Rightarrow> string \<Rightarrow> column_report \<Rightarrow> message list" where
  "column_error_messages detected c col =
     (case column_numeric col of None \<Rightarrow> [] | Some nr \<Rightarrow> numeric_error_messages c nr) @
     (case column_date col of None \<Rightarrow> [] | Some dr \<Rightarrow> date_error_messages c dr) @
     (case column_char_length col of None \<Rightarrow> []
      | Some lr \<Rightarrow> length_error_messages c (column_size col)
                    (allowed_length detected c (column_size col)) lr)"

definition column_warning_messages :: "string \<Rightarrow> string \<Rightarrow> column_report \<Rightarrow> message list" where
  "column_warning_messages detected c col =
     (case column_numeric col of None \<Rightarrow> []
      | Some nr \<Rightarrow> numeric_warning_messages c (column_size col) nr) @
     (case column_date col of None \<Rightarrow> [] | Some dr \<Rightarrow> date_warning_messages c dr) @
     (case column_char_length col of None \<Rightarrow> []
      | Some lr \<Rightarrow> length_warning_messages c (column_size col)
                    (allowed_length detected c (column_size col)) lr) @
     (case column_enum col of None \<Rightarrow> [] | Some er \<Rightarrow> enum_warning_messages c er)"

text \<open>The messages for the structure of the dataset and for the model year column, from
  the values the report holds.\<close>

definition structure_error_messages :: "string \<Rightarrow> string list \<Rightarrow> message list" where
  "structure_error_messages detected missing_required =
     (if missing_required \<noteq> [] then [MissingRequiredColumns detected missing_required] else [])"

definition structure_warning_messages :: "string list \<Rightarrow> bool option \<Rightarrow> message list" where
  "structure_warning_messages unexpected order_matches =
     (if unexpected \<noteq> [] then [UnexpectedExtraColumns unexpected] else []) @
     (if order_matches = Some False then [ColumnOrderDiffers] else [])"

definition model_year_warning_messages :: "string option \<Rightarrow> nat option \<Rightarrow> message list" where
  "model_year_warning_messages found out_of_range =
     (case (found, out_of_range) of
        (Some model_year_column, Some n) \<Rightarrow>
          if n > 0 then [ModelYearOutOfRange model_year_column n] else []
      | _ \<Rightarrow> [])"

text \<open>The kinds of message the spec counts as errors; every other kind is a warning.\<close>

fun is_error_kind :: "message \<Rightarrow> bool" where
  "is_error_kind (MissingRequiredColumns _ _) = True"
| "is_error_kind (NonNumericValues _ _) = True"
| "is_error_kind (InvalidDates _ _) = True"
| "is_error_kind (LengthOverflow _ _ _) = True"
| "is_error_kind _ = False"

text \<open>The check results of one present expected column: what the loop stores under
  the column's name.\<close>

definition column_checks :: "pandas \<Rightarrow> string \<Rightarrow> string \<Rightarrow> field \<Rightarrow> series \<Rightarrow> column_report" where
  "column_checks pd detected c f s =
     \<lparr>column_type = field_type f, column_size = field_size f,
      column_numeric =
        (if field_type f = ''NUMBER'' then Some (validate_numeric_field pd s (field_size f))
         else None),
      column_date = (if field_is_date f then Some (validate_date_field pd s) else None),
      column_char_length =
        (if field_type f = ''CHAR''
         then Some (validate_char_length pd s (allowed_length detected c (field_size f))
                      (field_is_date f))
         else None),
      column_enum =
        (if field_type f = ''CHAR''
         then Some (validate_enum_field pd s (allowed_values_for_field detected f))
         else None)\<rparr>"

section \<open>Example inputs\<close>

text \<open>Small schema documents and file systems, used to run the definitions.\<close>

text \<open>An instance of the pandas parameters, to run the definitions: a number is a plain
  decimal literal with an optional minus sign, a date is a real calendar date, and a
  timestamp is rendered as its number of nanoseconds.\<close>

definition parse_decimal :: "string \<Rightarrow> numeric option" where
  "parse_decimal t =
     (let negative = (t \<noteq> [] \<and> hd t = CHR ''-'');
          body = (if negative then tl t else t);
          whole = takeWhile is_digit body;
          rest = dropWhile is_digit body;
          fraction = (if rest = [] then [] else tl rest);
          magnitude = of_nat (digits_value whole) + of_nat (digits_value fraction) / 10 ^ length fraction
      in if whole \<noteq> [] \<and> (rest = [] \<or> hd rest = CHR ''.'') \<and> list_all is_digit fraction
         then Some (Finite (if negative then - magnitude else magnitude))
         else None)"

definition str_int :: "int \<Rightarrow> string" where
  "str_int i = (if i < 0 then ''-'' @ str_nat (nat (- i)) else str_nat (nat i))"

definition pd_example :: pandas where
  "pd_example = \<lparr>to_numeric = parse_decimal, to_datetime = is_calendar_date,
                  astype_string = map (map_option str_int)\<rparr>"


definition numeric_example :: "string option list" where
  "numeric_example = [Some ''12'', Some ''12.0'', Some ''abc'', Some [], Some ''1234567890123'']"


definition doc_one_field :: string where
  "doc_one_field = ''FIELDS:\<newline>1 A CHAR(1)''"

definition doc_repeated_name :: string where
  "doc_repeated_name = ''FIELDS:\<newline>1 MAKE CHAR(25)\<newline>2 MAKE CHAR(25)''"

definition doc_small :: string where
  "doc_small = ''NOTES\<newline>FIELDS:\<newline>=======\<newline>2 FAILDATE CHAR(8) YYYYMMDD\<newline>1 CMPLID NUMBER(9)''"

definition fs_one_field :: "string \<rightharpoonup> string" where
  "fs_one_field = [''docs/RCL.txt'' \<mapsto> doc_one_field]"

definition fs_repeated_name :: "string \<rightharpoonup> string" where
  "fs_repeated_name = [''docs/CMPL.txt'' \<mapsto> doc_repeated_name]"

definition fs_small :: "string \<rightharpoonup> string" where
  "fs_small = [''docs/CMPL.txt'' \<mapsto> doc_small]"

definition spec_one_field :: schema_spec where
  "spec_one_field = projr (parse_schema_doc fs_one_field ''docs/RCL.txt'' ''recalls'')"

definition spec_repeated_name :: schema_spec where
  "spec_repeated_name = projr (parse_schema_doc fs_repeated_name ''docs/CMPL.txt'' ''complaints'')"

definition spec_small :: schema_spec where
  "spec_small = projr (parse_schema_doc fs_small ''docs/CMPL.txt'' ''complaints'')"

text \<open>Two datasets: one with the columns of \<open>doc_small\<close> and the provenance column, one
  with no column of any schema.\<close>

definition df_example :: dataframe where
  "df_example =
     DAList.update ''source_zip'' (RawText [Some ''a.zip'', Some ''a.zip'', Some ''a.zip''])
       (DAList.update ''faildate'' (RawText [Some ''20200101'', Some ''0'', Some ''2020''])
         (DAList.update ''cmplid'' (RawText [Some ''1'', Some ''x'', Some ''1.5''])
           DAList.empty))"

definition df_unrelated :: dataframe where
  "df_unrelated = DAList.update ''colour'' (RawText [Some ''red'']) DAList.empty"

section \<open>Properties of the identifier normalizer\<close>

lemma set_re_sub_non_alnum:
  "set (re_sub_non_alnum s) \<subseteq> {c. is_lower_alnum c} \<union> {CHR ''_''}"
proof (induction s rule: re_sub_non_alnum.induct)
  case 1
  show ?case by simp
next
  case (2 c cs)
  then show ?case by auto
qed

lemma re_sub_non_alnum_hd:
  "s = [] \<or> is_lower_alnum (hd s) \<Longrightarrow>
   re_sub_non_alnum s = [] \<or> hd (re_sub_non_alnum s) \<noteq> CHR ''_''"
  by (cases s) (auto simp: is_lower_alnum_def ascii_lowercase_def digits_def)

lemma dropWhile_starts:
  "dropWhile P xs = [] \<or> \<not> P (hd (dropWhile P xs))"
  using hd_dropWhile [of P xs] by blast

lemma single_underscores_Cons:
  "single_underscores (c # cs) \<longleftrightarrow>
     single_underscores cs \<and> (cs = [] \<or> c \<noteq> CHR ''_'' \<or> hd cs \<noteq> CHR ''_'')"
  by (cases cs) auto

lemma single_underscores_re_sub:
  "single_underscores (re_sub_non_alnum s)"
proof (induction s rule: re_sub_non_alnum.induct)
  case 1
  show ?case by simp
next
  case (2 c cs)
  show ?case
  proof (cases "is_lower_alnum c")
    case True
    then have "c \<noteq> CHR ''_''"
      by (auto simp: is_lower_alnum_def ascii_lowercase_def digits_def)
    with True 2 show ?thesis
      by (simp add: single_underscores_Cons)
  next
    case False
    let ?r = "dropWhile (\<lambda>d. \<not> is_lower_alnum d) cs"
    have "?r = [] \<or> is_lower_alnum (hd ?r)"
      using dropWhile_starts [of "\<lambda>d. \<not> is_lower_alnum d" cs] by simp
    then have "re_sub_non_alnum ?r = [] \<or> hd (re_sub_non_alnum ?r) \<noteq> CHR ''_''"
      by (rule re_sub_non_alnum_hd)
    with False 2 show ?thesis
      by (auto simp: single_underscores_Cons)
  qed
qed

lemma single_underscores_append:
  "single_underscores (xs @ ys) \<longleftrightarrow>
     single_underscores xs \<and> single_underscores ys \<and>
     (xs = [] \<or> ys = [] \<or> last xs \<noteq> CHR ''_'' \<or> hd ys \<noteq> CHR ''_'')"
proof (induction xs)
  case Nil
  show ?case by simp
next
  case (Cons x xs)
  show ?case
  proof (cases xs)
    case Nil
    then show ?thesis by (auto simp: single_underscores_Cons)
  next
    case (Cons x' xs')
    with Cons.IH show ?thesis by (auto simp: single_underscores_Cons)
  qed
qed

lemma single_underscores_rev:
  "single_underscores (rev xs) = single_underscores xs"
proof (induction xs)
  case Nil
  show ?case by simp
next
  case (Cons x xs)
  then show ?case
    by (cases "xs = []")
      (auto simp: single_underscores_append single_underscores_Cons last_rev)
qed

lemma single_underscores_dropWhile:
  "single_underscores xs \<Longrightarrow> single_underscores (dropWhile P xs)"
proof -
  assume a: "single_underscores xs"
  have "xs = takeWhile P xs @ dropWhile P xs" by simp
  with a have "single_underscores (takeWhile P xs @ dropWhile P xs)" by simp
  then show ?thesis by (simp only: single_underscores_append)
qed

lemma single_underscores_strip_where:
  "single_underscores xs \<Longrightarrow> single_underscores (strip_where P xs)"
  by (simp add: strip_where_def single_underscores_rev single_underscores_dropWhile)

lemma set_strip_where: "set (strip_where P xs) \<subseteq> set xs"
proof -
  have "set (dropWhile P (rev (dropWhile P xs))) \<subseteq> set (rev (dropWhile P xs))"
    by (rule set_dropWhileD [THEN subsetI])
  also have "\<dots> \<subseteq> set xs"
    using set_dropWhileD [of _ P xs] by auto
  finally show ?thesis by (simp add: strip_where_def)
qed

lemma last_dropWhile:
  "dropWhile P xs \<noteq> [] \<Longrightarrow> last (dropWhile P xs) = last xs"
proof -
  assume a: "dropWhile P xs \<noteq> []"
  have "last xs = last (takeWhile P xs @ dropWhile P xs)" by simp
  also have "\<dots> = last (dropWhile P xs)" using a by (simp only: last_append if_False)
  finally show ?thesis by simp
qed

lemma strip_where_ends:
  assumes "strip_where P xs \<noteq> []"
  shows "\<not> P (hd (strip_where P xs))" and "\<not> P (last (strip_where P xs))"
proof -
  let ?a = "dropWhile P xs"
  let ?b = "dropWhile P (rev ?a)"
  from assms have b: "?b \<noteq> []" by (simp add: strip_where_def)
  have a: "?a \<noteq> []"
  proof
    assume h: "dropWhile P xs = []"
    have "dropWhile P (rev (dropWhile P xs)) = []" by (simp only: h rev.simps dropWhile.simps)
    with b show False by simp
  qed
  have "hd (strip_where P xs) = last ?b"
    using b by (simp add: strip_where_def hd_rev)
  also have "\<dots> = last (rev ?a)" using b by (rule last_dropWhile)
  also have "\<dots> = hd ?a" using a by (simp add: last_rev)
  finally show "\<not> P (hd (strip_where P xs))"
    using a hd_dropWhile [of P xs] by simp
  have "last (strip_where P xs) = hd ?b"
    using b by (simp add: strip_where_def last_rev)
  then show "\<not> P (last (strip_where P xs))"
    using b hd_dropWhile [of P "rev ?a"] by simp
qed

lemma lower_char_id: "c \<notin> set ascii_uppercase \<Longrightarrow> lower_char c = c"
proof -
  assume "c \<notin> set ascii_uppercase"
  then have "map_of (zip ascii_uppercase ascii_lowercase) c = None"
    by (simp add: map_of_zip_is_None ascii_uppercase_def ascii_lowercase_def)
  then show ?thesis by (simp add: lower_char_def)
qed

lemma identifier_chars_not_upper:
  "set (ascii_lowercase @ digits @ ''_'') \<inter> set ascii_uppercase = {}"
  by (simp add: ascii_uppercase_def ascii_lowercase_def digits_def)

lemma str_lower_id:
  "set s \<subseteq> set (ascii_lowercase @ digits @ ''_'') \<Longrightarrow> str_lower s = s"
proof -
  assume a: "set s \<subseteq> set (ascii_lowercase @ digits @ ''_'')"
  have "\<forall>c\<in>set s. lower_char c = c"
  proof
    fix c assume "c \<in> set s"
    with a have "c \<in> set (ascii_lowercase @ digits @ ''_'')" by blast
    with identifier_chars_not_upper have "c \<notin> set ascii_uppercase" by blast
    then show "lower_char c = c" by (rule lower_char_id)
  qed
  then show ?thesis by (simp add: str_lower_def map_idI)
qed

lemma stripped_identifier_shape:
  assumes "t = strip_underscores (re_sub_non_alnum s)" and "t \<noteq> []"
  shows "set t \<subseteq> set (ascii_lowercase @ digits @ ''_'')"
    and "single_underscores t"
    and "hd t \<noteq> CHR ''_''" and "last t \<noteq> CHR ''_''"
proof -
  have "set t \<subseteq> set (re_sub_non_alnum s)"
    using assms(1) set_strip_where by (simp add: strip_underscores_def)
  also have "\<dots> \<subseteq> {c. is_lower_alnum c} \<union> {CHR ''_''}"
    by (rule set_re_sub_non_alnum)
  also have "\<dots> = set (ascii_lowercase @ digits @ ''_'')"
    by (auto simp: is_lower_alnum_def)
  finally show "set t \<subseteq> set (ascii_lowercase @ digits @ ''_'')" .
  show "single_underscores t"
    using assms(1) single_underscores_re_sub
    by (simp add: strip_underscores_def single_underscores_strip_where)
  from assms have ne: "strip_where (\<lambda>c. c = CHR ''_'') (re_sub_non_alnum s) \<noteq> []"
    by (simp add: strip_underscores_def)
  show "hd t \<noteq> CHR ''_''"
    using strip_where_ends(1) [OF ne] assms(1) by (simp add: strip_underscores_def)
  show "last t \<noteq> CHR ''_''"
    using strip_where_ends(2) [OF ne] assms(1) by (simp add: strip_underscores_def)
qed

lemma column_shape:
  "set ''column'' \<subseteq> set (ascii_lowercase @ digits @ ''_'')"
  "single_underscores ''column''"
  by (simp_all add: ascii_lowercase_def)

text \<open>
  C10. For every input string the identifier normalizer returns a non-empty string. When
  stripping, lowercasing, collapsing every run of characters outside \<open>[a-z0-9]\<close> into one
  underscore and trimming underscores leaves nothing, the result is the literal
  \<open>column\<close>; otherwise it is what those steps leave. In both cases the result consists of
  lowercase ASCII letters, digits and underscores only, is unchanged by lowercasing, has
  no two underscores in a row, and neither starts nor ends with an underscore.
\<close>

theorem normalize_identifier_shape:
  "normalize_identifier v \<noteq> [] \<and>
   normalize_identifier v =
     (if strip_underscores (re_sub_non_alnum (str_lower (str_strip v))) = [] then ''column''
      else strip_underscores (re_sub_non_alnum (str_lower (str_strip v)))) \<and>
   set (normalize_identifier v) \<subseteq> set (ascii_lowercase @ digits @ ''_'') \<and>
   str_lower (normalize_identifier v) = normalize_identifier v \<and>
   single_underscores (normalize_identifier v) \<and>
   hd (normalize_identifier v) \<noteq> CHR ''_'' \<and>
   last (normalize_identifier v) \<noteq> CHR ''_''"
proof (cases "strip_underscores (re_sub_non_alnum (str_lower (str_strip v))) = []")
  case True
  then have r: "normalize_identifier v = ''column''"
    by (simp add: normalize_identifier_def)
  show ?thesis
    unfolding r using True column_shape str_lower_id [OF column_shape(1)] by simp
next
  case False
  define t where "t = strip_underscores (re_sub_non_alnum (str_lower (str_strip v)))"
  from False have r: "normalize_identifier v = t"
    by (simp add: normalize_identifier_def t_def)
  from False have ne: "t \<noteq> []" by (simp add: t_def)
  note shape = stripped_identifier_shape [OF t_def ne]
  show ?thesis
    unfolding r using False ne shape str_lower_id [OF shape(1)] by (simp add: t_def)
qed

theorem normalize_identifier_shape_witness:
  "normalize_identifier ''  Fail Date!! '' = ''fail_date'' \<and>
   normalize_identifier ''__'' = ''column''"
  using normalize_identifier_shape [of "''  Fail Date!! ''"]
    normalize_identifier_shape [of "''__''"]
  by (simp add: normalize_identifier_def str_lower_def str_strip_def strip_underscores_def
      strip_where_def lower_char_def is_space_def is_lower_alnum_def
      ascii_lowercase_def ascii_uppercase_def digits_def)

section \<open>Properties of the schema doc parser\<close>

lemma parse_schema_doc_Inr:
  assumes "parse_schema_doc fs doc_path schema_name = Inr spec"
  obtains raw_text rows where "fs doc_path = Some raw_text"
    and "scan_lines False [] (splitlines raw_text) = Inr rows"
    and "rows \<noteq> []"
    and "spec = build_schema_spec doc_path schema_name rows"
  using assms
  by (auto simp: parse_schema_doc_def split: option.splits sum.splits if_splits)

lemma normalize_field_sel [simp]:
  "field_index (normalize_field n f) = cf_index f"
  "field_name (normalize_field n f) = cf_name f"
  "field_name_raw (normalize_field n f) = cf_name_raw f"
  "field_type (normalize_field n f) = cf_type f"
  "field_size (normalize_field n f) = cf_size f"
  by (simp_all add: normalize_field_def Let_def)

lemma build_schema_spec_sel:
  "spec_fields (build_schema_spec p n rows) = map (normalize_field n) (sort_key cf_index rows)"
  "spec_expected_columns (build_schema_spec p n rows) = map cf_name (sort_key cf_index rows)"
  "spec_optional_columns (build_schema_spec p n rows) = sort (remdups (dict_get SCHEMA_OPTIONAL_COLUMNS n []))"
  "spec_required_columns (build_schema_spec p n rows) =
     filter (\<lambda>name. name \<notin> set (dict_get SCHEMA_OPTIONAL_COLUMNS n [])) (map cf_name (sort_key cf_index rows))"
  "spec_schema_name (build_schema_spec p n rows) = n"
  "spec_doc_path (build_schema_spec p n rows) = p"
  "spec_field_map (build_schema_spec p n rows) =
     map_of (rev (map (\<lambda>f. (field_name f, f)) (map (normalize_field n) (sort_key cf_index rows))))"
  by (simp_all add: build_schema_spec_def Let_def comp_def)

text \<open>
  C1, as amended. For every schema document that parses, the spec has as many expected
  columns as fields; the required columns are the expected columns that are not optional,
  so they are a subset of the expected columns; the optional columns are the configured
  optional set of the schema, whether or not its names occur among the fields; every
  expected column is required or optional; and required and optional columns together
  are exactly the expected columns if and only if every configured optional name occurs
  among the expected columns.
\<close>

theorem parsed_schema_columns:
  assumes "parse_schema_doc fs doc_path schema_name = Inr spec"
  shows "length (spec_expected_columns spec) = length (spec_fields spec) \<and>
         set (spec_required_columns spec) \<subseteq> set (spec_expected_columns spec) \<and>
         spec_required_columns spec =
           filter (\<lambda>name. name \<notin> set (spec_optional_columns spec)) (spec_expected_columns spec) \<and>
         set (spec_optional_columns spec) = set (dict_get SCHEMA_OPTIONAL_COLUMNS schema_name []) \<and>
         set (spec_expected_columns spec) \<subseteq>
           set (spec_required_columns spec) \<union> set (spec_optional_columns spec) \<and>
         (set (spec_required_columns spec) \<union> set (spec_optional_columns spec) =
            set (spec_expected_columns spec)
          \<longleftrightarrow> set (spec_optional_columns spec) \<subseteq> set (spec_expected_columns spec))"
proof -
  from assms obtain rows where spec: "spec = build_schema_spec doc_path schema_name rows"
    by (rule parse_schema_doc_Inr)
  show ?thesis
    unfolding spec build_schema_spec_sel by auto
qed



lemma example_docs_parse:
  "parse_schema_doc fs_one_field ''docs/RCL.txt'' ''recalls'' = Inr spec_one_field"
  "parse_schema_doc fs_repeated_name ''docs/CMPL.txt'' ''complaints'' = Inr spec_repeated_name"
  "parse_schema_doc fs_small ''docs/CMPL.txt'' ''complaints'' = Inr spec_small"
proof -
  have "\<not> isl (parse_schema_doc fs_one_field ''docs/RCL.txt'' ''recalls'')" by code_simp
  then show "parse_schema_doc fs_one_field ''docs/RCL.txt'' ''recalls'' = Inr spec_one_field"
    by (simp add: spec_one_field_def)
  have "\<not> isl (parse_schema_doc fs_repeated_name ''docs/CMPL.txt'' ''complaints'')" by code_simp
  then show "parse_schema_doc fs_repeated_name ''docs/CMPL.txt'' ''complaints'' = Inr spec_repeated_name"
    by (simp add: spec_repeated_name_def)
  have "\<not> isl (parse_schema_doc fs_small ''docs/CMPL.txt'' ''complaints'')" by code_simp
  then show "parse_schema_doc fs_small ''docs/CMPL.txt'' ''complaints'' = Inr spec_small"
    by (simp add: spec_small_def)
qed

lemma spec_one_field_columns:
  "spec_expected_columns spec_one_field = [''a'']"
  "spec_required_columns spec_one_field = [''a'']"
  "spec_optional_columns spec_one_field = [''do_not_drive'', ''park_outside'']"
  by code_simp+

lemma spec_small_columns:
  "map field_index (spec_fields spec_small) = [1, 2]"
  "map field_name (spec_fields spec_small) = [''cmplid'', ''faildate'']"
  "spec_expected_columns spec_small = [''cmplid'', ''faildate'']"
  "spec_required_columns spec_small = [''cmplid'', ''faildate'']"
  "spec_optional_columns spec_small = []"
  by code_simp+

theorem parsed_schema_columns_witness:
  "parse_schema_doc fs_small ''docs/CMPL.txt'' ''complaints'' = Inr spec_small \<and>
   length (spec_expected_columns spec_small) = length (spec_fields spec_small) \<and>
   set (spec_required_columns spec_small) \<union> set (spec_optional_columns spec_small) =
     set (spec_expected_columns spec_small)"
  using parsed_schema_columns [OF example_docs_parse(3)] example_docs_parse(3)
  by (simp add: spec_small_columns)

text \<open>The document \<open>doc_one_field\<close>, read as the recalls schema, parses to a spec whose
  optional columns \<open>do_not_drive\<close> and \<open>park_outside\<close> are not among its expected columns:
  required and optional columns together are more than the expected columns.\<close>

theorem parsed_schema_columns_counterexample:
  "parse_schema_doc fs_one_field ''docs/RCL.txt'' ''recalls'' = Inr spec_one_field \<and>
   set (spec_required_columns spec_one_field) \<union> set (spec_optional_columns spec_one_field)
     \<noteq> set (spec_expected_columns spec_one_field)"
  by (simp add: example_docs_parse spec_one_field_columns)

lemma new_field_name:
  "new_field groups = Inr current \<Longrightarrow> cf_name current = normalize_identifier (cf_name_raw current)"
  by (auto simp: new_field_def Let_def split: prod.splits sum.splits if_splits)

lemma add_continuation_name [simp]:
  "cf_name (add_continuation c f) = cf_name f"
  "cf_name_raw (add_continuation c f) = cf_name_raw f"
  "cf_index (add_continuation c f) = cf_index f"
  by (simp_all add: add_continuation_def)

lemma scan_lines_names:
  "scan_lines b flds lines = Inr rows \<Longrightarrow>
   \<forall>f\<in>set flds. cf_name f = normalize_identifier (cf_name_raw f) \<Longrightarrow>
   \<forall>f\<in>set rows. cf_name f = normalize_identifier (cf_name_raw f)"
proof (induction lines arbitrary: b flds)
  case Nil
  then show ?case by simp
next
  case (Cons line lines)
  show ?case
  proof (cases "str_contains ''FIELDS:'' line \<or> \<not> b \<or> is_probably_blank_line line")
    case True
    with Cons.prems(1) have "scan_lines True flds lines = Inr rows \<or> scan_lines b flds lines = Inr rows"
      by (auto split: if_splits)
    with Cons.IH Cons.prems(2) show ?thesis by blast
  next
    case False
    show ?thesis
    proof (cases "FIELD_ROW_PATTERN_match line")
      case (Some row_match)
      with False Cons.prems(1) obtain current where
        c: "new_field row_match = Inr current" and
        s: "scan_lines b (flds @ [current]) lines = Inr rows"
        by (auto split: sum.splits)
      from c Cons.prems(2)
      have "\<forall>f\<in>set (flds @ [current]). cf_name f = normalize_identifier (cf_name_raw f)"
        by (auto dest: new_field_name)
      with Cons.IH s show ?thesis by blast
    next
      case None
      show ?thesis
      proof (cases "flds = [] \<or> str_strip line = []")
        case True
        with None False Cons.prems(1) have "scan_lines b flds lines = Inr rows"
          by (auto simp: Let_def split: if_splits)
        with Cons.IH Cons.prems(2) show ?thesis by blast
      next
        case c: False
        let ?flds = "butlast flds @ [add_continuation (str_strip line) (last flds)]"
        from c None False Cons.prems(1) have s: "scan_lines b ?flds lines = Inr rows"
          by (auto simp: Let_def)
        from c have "last flds \<in> set flds" by simp
        with Cons.prems(2)
        have "\<forall>f\<in>set ?flds. cf_name f = normalize_identifier (cf_name_raw f)"
          by (auto dest: in_set_butlastD)
        with Cons.IH s show ?thesis by blast
      qed
    qed
  qed
qed

text \<open>
  C8, as amended. For every schema document that parses, the fields of the spec are the
  field rows of the document, sorted by index with rows of equal index kept in document
  order, so their indexes are in non-decreasing order; the name of each field is the
  normalized form of its raw name; and the names are pairwise different exactly when no
  two field rows of the document have the same normalized name.
\<close>

theorem parsed_fields_order:
  assumes "parse_schema_doc fs doc_path schema_name = Inr spec"
  shows "sorted (map field_index (spec_fields spec)) \<and>
         (\<forall>f\<in>set (spec_fields spec). field_name f = normalize_identifier (field_name_raw f)) \<and>
         (\<exists>raw_text rows. fs doc_path = Some raw_text \<and>
            scan_lines False [] (splitlines raw_text) = Inr rows \<and>
            spec_fields spec = map (normalize_field schema_name) (sort_key cf_index rows) \<and>
            (distinct (map field_name (spec_fields spec)) \<longleftrightarrow> distinct (map cf_name rows)))"
proof -
  from assms obtain raw_text rows where
    fs: "fs doc_path = Some raw_text" and
    scan: "scan_lines False [] (splitlines raw_text) = Inr rows" and
    spec: "spec = build_schema_spec doc_path schema_name rows"
    by (rule parse_schema_doc_Inr)
  have idx: "map field_index (spec_fields spec) = map cf_index (sort_key cf_index rows)"
    by (simp add: spec build_schema_spec_sel comp_def)
  have names: "map field_name (spec_fields spec) = map cf_name (sort_key cf_index rows)"
    by (simp add: spec build_schema_spec_sel comp_def)
  have "sorted (map field_index (spec_fields spec))"
    unfolding idx by (rule sorted_sort_key)
  moreover have "\<forall>f\<in>set (spec_fields spec). field_name f = normalize_identifier (field_name_raw f)"
    using scan_lines_names [OF scan] by (auto simp: spec build_schema_spec_sel)
  moreover have "distinct (map field_name (spec_fields spec)) \<longleftrightarrow> distinct (map cf_name rows)"
  proof -
    have "mset (map cf_name (sort_key cf_index rows)) = mset (map cf_name rows)"
      by simp
    then show ?thesis unfolding names by (rule mset_eq_imp_distinct_iff)
  qed
  ultimately show ?thesis using fs scan spec by (auto simp: build_schema_spec_sel)
qed


theorem parsed_fields_order_witness:
  "parse_schema_doc fs_small ''docs/CMPL.txt'' ''complaints'' = Inr spec_small \<and>
   sorted (map field_index (spec_fields spec_small)) \<and>
   distinct (map field_name (spec_fields spec_small))"
  using parsed_fields_order [OF example_docs_parse(3)] example_docs_parse(3)
  by (simp add: spec_small_columns)

text \<open>The document \<open>doc_repeated_name\<close> has two field rows named \<open>MAKE\<close>; it parses, and
  both fields of the spec have the normalized name \<open>make\<close>.\<close>

theorem parsed_fields_order_counterexample:
  "parse_schema_doc fs_repeated_name ''docs/CMPL.txt'' ''complaints'' = Inr spec_repeated_name \<and>
   \<not> distinct (map field_name (spec_fields spec_repeated_name))"
proof -
  have "map field_name (spec_fields spec_repeated_name) = [''make'', ''make'']"
    by code_simp
  then show ?thesis by (simp add: example_docs_parse)
qed

section \<open>Properties of the field validators\<close>





lemma dropna_Nil [simp]: "dropna [] = []"
  by (simp add: dropna_def List.map_filter_simps)

lemma dropna_Cons [simp]:
  "dropna (v # vs) = (case v of None \<Rightarrow> dropna vs | Some x \<Rightarrow> x # dropna vs)"
  by (simp add: dropna_def List.map_filter_simps split: option.splits)





lemma clean_text_series_RawText:
  "clean_text_series pd (RawText vs) =
     map (\<lambda>v. if map_option str_strip v = Some [] then None else map_option str_strip v) vs"
  by (simp add: clean_text_series_def Let_def comp_def)

subsection \<open>Dates\<close>

lemma check_mask:
  "map2 (\<lambda>n z. n \<and> \<not> z) (notna cells) (map is_placeholder cells)
   = map (\<lambda>v. v \<noteq> None \<and> \<not> is_placeholder v) cells"
  by (induction cells) (auto simp: notna_def)







subsection \<open>Numbers\<close>

lemma is_integral_numeral [simp]: "is_integral (Finite (numeral n))"
proof -
  have h: "frac (numeral n :: rat) = 0" by (simp add: frac_eq_0_iff)
  show ?thesis unfolding is_integral_def numeric.case h by simp
qed

lemma numeric_example_clean:
  "clean_text_series pd (RawText numeric_example) =
     [Some ''12'', Some ''12.0'', Some ''abc'', None, Some ''1234567890123'']"
  unfolding clean_text_series_RawText by code_simp

lemma numeric_example_report:
  assumes "to_numeric pd ''12'' = Some (Finite 12)"
    and "to_numeric pd ''12.0'' = Some (Finite 12)"
    and "to_numeric pd ''abc'' = None"
    and "to_numeric pd ''1234567890123'' = Some (Finite 1234567890123)"
  shows "validate_numeric_field pd (RawText numeric_example) 5 =
     \<lparr>numeric_checked = True, numeric_non_null_count = 4, non_numeric_count = 1,
      non_integer_count = 0, digits_overflow_count = 1, numeric_invalid_examples = [''abc'']\<rparr>"
  unfolding validate_numeric_field_def numeric_example_clean Let_def
  by (simp add: assms notna_def mask_sum_def select_def is_digit_def digits_def)

lemma pd_example_numbers:
  "to_numeric pd_example ''12'' = Some (Finite 12)"
  "to_numeric pd_example ''12.0'' = Some (Finite 12)"
  "to_numeric pd_example ''abc'' = None"
  "to_numeric pd_example ''1234567890123'' = Some (Finite 1234567890123)"
  by (simp_all add: pd_example_def parse_decimal_def digits_value_def digit_val_def
      is_digit_def digits_def)

text \<open>
  C5. Let pandas read \<open>12\<close> and \<open>12.0\<close> as the number 12, \<open>1234567890123\<close> as that number,
  and \<open>abc\<close> as no number. Then the Numeric validator, on the series \<open>12\<close>, \<open>12.0\<close>, \<open>abc\<close>,
  the empty string, \<open>1234567890123\<close> with \<open>max_digits = 5\<close>, reports one non-numeric value,
  no non-integer value (12 is integral within the tolerance), one digit overflow (the
  digit characters of \<open>12.0\<close> are 3, those of \<open>1234567890123\<close> are 13), and four non-null
  values of five, that is one null.
\<close>

theorem validate_numeric_field_example:
  assumes "to_numeric pd ''12'' = Some (Finite 12)"
    and "to_numeric pd ''12.0'' = Some (Finite 12)"
    and "to_numeric pd ''abc'' = None"
    and "to_numeric pd ''1234567890123'' = Some (Finite 1234567890123)"
  shows "non_numeric_count (validate_numeric_field pd (RawText numeric_example) 5) = 1
       \<and> non_integer_count (validate_numeric_field pd (RawText numeric_example) 5) = 0
       \<and> digits_overflow_count (validate_numeric_field pd (RawText numeric_example) 5) = 1
       \<and> numeric_non_null_count (validate_numeric_field pd (RawText numeric_example) 5) = 4
       \<and> length numeric_example
           - numeric_non_null_count (validate_numeric_field pd (RawText numeric_example) 5) = 1
       \<and> is_integral (Finite 12)
       \<and> length (filter is_digit ''12.0'') = 3
       \<and> length (filter is_digit ''1234567890123'') = 13"
  unfolding numeric_example_report [OF assms]
  by (simp add: numeric_example_def is_digit_def digits_def)

theorem validate_numeric_field_example_witness:
  "to_numeric pd_example ''12'' = Some (Finite 12)
   \<and> to_numeric pd_example ''12.0'' = Some (Finite 12)
   \<and> to_numeric pd_example ''abc'' = None
   \<and> to_numeric pd_example ''1234567890123'' = Some (Finite 1234567890123)
   \<and> non_numeric_count (validate_numeric_field pd_example (RawText numeric_example) 5) = 1
   \<and> digits_overflow_count (validate_numeric_field pd_example (RawText numeric_example) 5) = 1"
  using validate_numeric_field_example [OF pd_example_numbers] pd_example_numbers
  by blast

subsection \<open>Enumerations\<close>






section \<open>Properties of the report builder\<close>

lemma df_getitem_present:
  "c \<in> set (df_columns df) \<Longrightarrow> \<exists>s. df_getitem df c = Some s"
  by (cases "df_getitem df c")
    (auto simp: df_getitem_def df_columns_def DAList.lookup.rep_eq map_of_eq_None_iff)

lemma check_numeric_eq:
  assumes "column_numeric col = None"
  shows "check_numeric pd c f s (col, r) =
     (col\<lparr>column_numeric := column_numeric (column_checks pd detected c f s)\<rparr>,
      r\<lparr>report_field_issue_counts :=
          report_field_issue_counts (snd (check_numeric pd c f s (col, r))),
        report_errors := report_errors r @
          (case column_numeric (column_checks pd detected c f s) of None \<Rightarrow> []
           | Some nr \<Rightarrow> numeric_error_messages c nr),
        report_warnings := report_warnings r @
          (case column_numeric (column_checks pd detected c f s) of None \<Rightarrow> []
           | Some nr \<Rightarrow> numeric_warning_messages c (field_size f) nr)\<rparr>)"
  using assms
  by (simp add: check_numeric_def column_checks_def Let_def add_error_def add_warning_def
      numeric_error_messages_def numeric_warning_messages_def)

lemma check_date_eq:
  assumes "column_date col = None"
  shows "check_date pd c f s (col, r) =
     (col\<lparr>column_date := column_date (column_checks pd detected c f s)\<rparr>,
      r\<lparr>report_field_issue_counts :=
          report_field_issue_counts (snd (check_date pd c f s (col, r))),
        report_errors := report_errors r @
          (case column_date (column_checks pd detected c f s) of None \<Rightarrow> []
           | Some dr \<Rightarrow> date_error_messages c dr),
        report_warnings := report_warnings r @
          (case column_date (column_checks pd detected c f s) of None \<Rightarrow> []
           | Some dr \<Rightarrow> date_warning_messages c dr)\<rparr>)"
  using assms
  by (simp add: check_date_def column_checks_def Let_def add_error_def add_warning_def
      date_error_messages_def date_warning_messages_def)

lemma check_char_eq:
  assumes "column_char_length col = None" and "column_enum col = None"
  shows "check_char pd detected c f s (col, r) =
     (col\<lparr>column_char_length := column_char_length (column_checks pd detected c f s),
          column_enum := column_enum (column_checks pd detected c f s)\<rparr>,
      r\<lparr>report_field_issue_counts :=
          report_field_issue_counts (snd (check_char pd detected c f s (col, r))),
        report_errors := report_errors r @
          (case column_char_length (column_checks pd detected c f s) of None \<Rightarrow> []
           | Some lr \<Rightarrow> length_error_messages c (field_size f)
                         (allowed_length detected c (field_size f)) lr),
        report_warnings := report_warnings r @
          (case column_char_length (column_checks pd detected c f s) of None \<Rightarrow> []
           | Some lr \<Rightarrow> length_warning_messages c (field_size f)
                         (allowed_length detected c (field_size f)) lr) @
          (case column_enum (column_checks pd detected c f s) of None \<Rightarrow> []
           | Some er \<Rightarrow> enum_warning_messages c er)\<rparr>)"
  using assms
  by (simp add: check_char_def column_checks_def Let_def add_error_def add_warning_def
      length_error_messages_def length_warning_messages_def enum_warning_messages_def
      allowed_length_def)


lemma check_column_eq:
  assumes "spec_field_map spec c = Some f" and "df_getitem df c = Some s"
  shows "\<exists>k. check_column pd df spec detected c r =
     Inr (r\<lparr>report_field_issue_counts := k,
            report_errors := report_errors r
              @ column_error_messages detected c (column_checks pd detected c f s),
            report_warnings := report_warnings r
              @ column_warning_messages detected c (column_checks pd detected c f s),
            report_field_checks :=
              AList.update c (column_checks pd detected c f s) (report_field_checks r)\<rparr>)"
proof -
  let ?cc = "column_checks pd detected c f s"
  let ?col0 = "\<lparr>column_type = field_type f, column_size = field_size f,
                column_numeric = None, column_date = None,
                column_char_length = None, column_enum = None\<rparr>"
  let ?col1 = "?col0\<lparr>column_numeric := column_numeric ?cc\<rparr>"
  let ?col2 = "?col1\<lparr>column_date := column_date ?cc\<rparr>"
  let ?col3 = "?col2\<lparr>column_char_length := column_char_length ?cc, column_enum := column_enum ?cc\<rparr>"
  obtain k1 r1 where
    s1: "check_numeric pd c f s (?col0, r) = (?col1, r1)" and
    r1: "r1 = r\<lparr>report_field_issue_counts := k1,
        report_errors := report_errors r @
          (case column_numeric ?cc of None \<Rightarrow> [] | Some nr \<Rightarrow> numeric_error_messages c nr),
        report_warnings := report_warnings r @
          (case column_numeric ?cc of None \<Rightarrow> []
           | Some nr \<Rightarrow> numeric_warning_messages c (field_size f) nr)\<rparr>"
    using check_numeric_eq [of ?col0 pd c f s r detected] by simp
  obtain k2 r2 where
    s2: "check_date pd c f s (?col1, r1) = (?col2, r2)" and
    r2: "r2 = r1\<lparr>report_field_issue_counts := k2,
        report_errors := report_errors r1 @
          (case column_date ?cc of None \<Rightarrow> [] | Some dr \<Rightarrow> date_error_messages c dr),
        report_warnings := report_warnings r1 @
          (case column_date ?cc of None \<Rightarrow> [] | Some dr \<Rightarrow> date_warning_messages c dr)\<rparr>"
    using check_date_eq [of ?col1 pd c f s r1 detected] by simp
  obtain k3 r3 where
    s3: "check_char pd detected c f s (?col2, r2) = (?col3, r3)" and
    r3: "r3 = r2\<lparr>report_field_issue_counts := k3,
        report_errors := report_errors r2 @
          (case column_char_length ?cc of None \<Rightarrow> []
           | Some lr \<Rightarrow> length_error_messages c (field_size f)
                         (allowed_length detected c (field_size f)) lr),
        report_warnings := report_warnings r2 @
          (case column_char_length ?cc of None \<Rightarrow> []
           | Some lr \<Rightarrow> length_warning_messages c (field_size f)
                         (allowed_length detected c (field_size f)) lr) @
          (case column_enum ?cc of None \<Rightarrow> [] | Some er \<Rightarrow> enum_warning_messages c er)\<rparr>"
    using check_char_eq [of ?col2 pd detected c f s r2] by simp
  have col3: "?col3 = ?cc" by (simp add: column_checks_def)
  have "check_column pd df spec detected c r =
          Inr (r3\<lparr>report_field_checks := AList.update c ?col3 (report_field_checks r3)\<rparr>)"
    unfolding check_column_def Let_def
    by (simp only: assms option.case s1 s2 s3 fst_conv snd_conv)
  then have "check_column pd df spec detected c r =
          Inr (r3\<lparr>report_field_checks := AList.update c ?cc (report_field_checks r3)\<rparr>)"
    by (simp only: col3)
  moreover have "r3\<lparr>report_field_checks := AList.update c ?cc (report_field_checks r3)\<rparr> =
     r\<lparr>report_field_issue_counts := k3,
       report_errors := report_errors r @ column_error_messages detected c ?cc,
       report_warnings := report_warnings r @ column_warning_messages detected c ?cc,
       report_field_checks := AList.update c ?cc (report_field_checks r)\<rparr>"
    unfolding r3 r2 r1
    by (simp add: column_error_messages_def column_warning_messages_def column_checks_def)
  ultimately show ?thesis by auto
qed


lemma check_columns_eq:
  assumes "\<forall>c\<in>set cs. spec_field_map spec c \<noteq> None \<and> df_getitem df c \<noteq> None"
  shows "\<exists>k. check_columns pd df spec detected cs r =
     Inr (r\<lparr>report_field_issue_counts := k,
            report_errors := report_errors r @ concat (map (\<lambda>c.
              column_error_messages detected c
                (column_checks pd detected c (the (spec_field_map spec c)) (the (df_getitem df c)))) cs),
            report_warnings := report_warnings r @ concat (map (\<lambda>c.
              column_warning_messages detected c
                (column_checks pd detected c (the (spec_field_map spec c)) (the (df_getitem df c)))) cs),
            report_field_checks := fold (\<lambda>c. AList.update c
                (column_checks pd detected c (the (spec_field_map spec c)) (the (df_getitem df c))))
              cs (report_field_checks r)\<rparr>)"
  using assms
proof (induction cs arbitrary: r)
  case Nil
  show ?case by (rule exI [of _ "report_field_issue_counts r"]) simp
next
  case (Cons c cs)
  from Cons.prems obtain f s where
    f: "spec_field_map spec c = Some f" and s: "df_getitem df c = Some s"
    by auto
  from check_column_eq [OF f s, of pd detected r] obtain k1 where
    step: "check_column pd df spec detected c r =
      Inr (r\<lparr>report_field_issue_counts := k1,
            report_errors := report_errors r
              @ column_error_messages detected c (column_checks pd detected c f s),
            report_warnings := report_warnings r
              @ column_warning_messages detected c (column_checks pd detected c f s),
            report_field_checks :=
              AList.update c (column_checks pd detected c f s) (report_field_checks r)\<rparr>)"
    by blast
  let ?r1 = "r\<lparr>report_field_issue_counts := k1,
            report_errors := report_errors r
              @ column_error_messages detected c (column_checks pd detected c f s),
            report_warnings := report_warnings r
              @ column_warning_messages detected c (column_checks pd detected c f s),
            report_field_checks :=
              AList.update c (column_checks pd detected c f s) (report_field_checks r)\<rparr>"
  from Cons.prems have "\<forall>c\<in>set cs. spec_field_map spec c \<noteq> None \<and> df_getitem df c \<noteq> None"
    by simp
  from Cons.IH [OF this, of ?r1] obtain k2 where
    rest: "check_columns pd df spec detected cs ?r1 =
     Inr (?r1\<lparr>report_field_issue_counts := k2,
            report_errors := report_errors ?r1 @ concat (map (\<lambda>c.
              column_error_messages detected c
                (column_checks pd detected c (the (spec_field_map spec c)) (the (df_getitem df c)))) cs),
            report_warnings := report_warnings ?r1 @ concat (map (\<lambda>c.
              column_warning_messages detected c
                (column_checks pd detected c (the (spec_field_map spec c)) (the (df_getitem df c)))) cs),
            report_field_checks := fold (\<lambda>c. AList.update c
                (column_checks pd detected c (the (spec_field_map spec c)) (the (df_getitem df c))))
              cs (report_field_checks ?r1)\<rparr>)"
    by blast
  have "check_columns pd df spec detected (c # cs) r = check_columns pd df spec detected cs ?r1"
    by (simp add: step)
  also note rest
  finally show ?case
    by (intro exI [of _ k2]) (simp add: f s)
qed

lemma fold_update_lookup:
  "map_of (fold (\<lambda>c. AList.update c (g c)) cs init) c' =
     (if c' \<in> set cs then Some (g c') else map_of init c')"
  by (induction cs arbitrary: init) (auto simp: update_conv')

lemma fold_update_distinct:
  "distinct (map fst init) \<Longrightarrow> distinct (map fst (fold (\<lambda>c. AList.update c (g c)) cs init))"
  by (induction cs arbitrary: init) (auto simp: distinct_update)

lemma fold_update_entries:
  "set (fold (\<lambda>c. AList.update c (g c)) cs []) = (\<lambda>c. (c, g c)) ` set cs"
proof -
  have d: "distinct (map fst (fold (\<lambda>c. AList.update c (g c)) cs []))"
    by (rule fold_update_distinct) simp
  show ?thesis
  proof (rule set_eqI)
    fix p :: "'a \<times> 'b"
    obtain c v where p: "p = (c, v)" by (cases p)
    have "(c, v) \<in> set (fold (\<lambda>c. AList.update c (g c)) cs []) \<longleftrightarrow>
          map_of (fold (\<lambda>c. AList.update c (g c)) cs []) c = Some v"
      using d by simp
    also have "\<dots> \<longleftrightarrow> c \<in> set cs \<and> v = g c"
      by (auto simp: fold_update_lookup)
    finally show "p \<in> set (fold (\<lambda>c. AList.update c (g c)) cs []) \<longleftrightarrow> p \<in> (\<lambda>c. (c, g c)) ` set cs"
      unfolding p by auto
  qed
qed


lemma schema_catalog_loop_schemas:
  assumes "(n, spec) \<in> set (catalog_schemas (schema_catalog_loop fs docs info))"
  shows "(n, spec) \<in> set (catalog_schemas info) \<or>
         (\<exists>p. (n, p) \<in> set docs \<and> parse_schema_doc fs p n = Inr spec)"
  using assms
proof (induction docs arbitrary: info)
  case Nil
  then show ?case by simp
next
  case (Cons d docs)
  obtain n' p' where d: "d = (n', p')" by (cases d)
  show ?case
  proof (cases "parse_schema_doc fs p' n'")
    case (Inl e)
    with Cons.prems d have
      "(n, spec) \<in> set (catalog_schemas (schema_catalog_loop fs docs
          (info\<lparr>catalog_errors := catalog_errors info @ [(n', exception_text e)]\<rparr>)))"
      by simp
    from Cons.IH [OF this] show ?thesis by auto
  next
    case (Inr spec')
    with Cons.prems d have
      "(n, spec) \<in> set (catalog_schemas (schema_catalog_loop fs docs
          (info\<lparr>catalog_schemas := catalog_schemas info @ [(n', spec')]\<rparr>)))"
      by simp
    from Cons.IH [OF this] Inr d show ?thesis by auto
  qed
qed

lemma catalog_entry_parsed:
  assumes "map_of (catalog_schemas (schema_catalog fs)) n = Some spec"
  shows "\<exists>p. parse_schema_doc fs p n = Inr spec" and "n \<noteq> []"
proof -
  from assms have "(n, spec) \<in> set (catalog_schemas (schema_catalog fs))"
    by (rule map_of_SomeD)
  then have "\<exists>p. (n, p) \<in> set SCHEMA_DOCS \<and> parse_schema_doc fs p n = Inr spec"
    unfolding schema_catalog_def by (auto dest: schema_catalog_loop_schemas)
  then show "\<exists>p. parse_schema_doc fs p n = Inr spec" and "n \<noteq> []"
    by (auto simp: SCHEMA_DOCS_def)
qed

lemma parsed_field_map:
  assumes "parse_schema_doc fs p n = Inr spec" and "c \<in> set (spec_expected_columns spec)"
  shows "\<exists>f. spec_field_map spec c = Some f"
proof -
  from assms(1) obtain rows where spec: "spec = build_schema_spec p n rows"
    by (rule parse_schema_doc_Inr)
  let ?fields = "map (normalize_field n) (sort_key cf_index rows)"
  from assms(2) have "c \<in> fst ` set (rev (map (\<lambda>f. (field_name f, f)) ?fields))"
    by (auto simp: spec build_schema_spec_sel image_iff)
  then have "map_of (rev (map (\<lambda>f. (field_name f, f)) ?fields)) c \<noteq> None"
    by (simp only: map_of_eq_None_iff not_not)
  then show ?thesis by (auto simp: spec build_schema_spec_sel)
qed

lemma check_against_schema_eq:
  assumes "parse_schema_doc fs p n = Inr spec"
  shows "\<exists>k. check_against_schema pd df spec detected r =
     Inr (r\<lparr>report_schema_doc_path := Some (spec_doc_path spec),
            report_expected_columns := Some (length (spec_expected_columns spec)),
            report_present_expected_columns :=
              Some (length (filter (\<lambda>c. c \<in> set (df_columns df)) (spec_expected_columns spec))),
            report_missing_columns :=
              filter (\<lambda>c. c \<notin> set (df_columns df)) (spec_required_columns spec),
            report_missing_optional_columns :=
              filter (\<lambda>c. c \<notin> set (df_columns df)) (spec_optional_columns spec),
            report_extra_columns :=
              filter (\<lambda>c. c \<notin> set (spec_expected_columns spec)) (df_columns df),
            report_unexpected_extra_columns :=
              filter (\<lambda>c. c \<notin> set ALLOWED_PIPELINE_EXTRA_COLUMNS)
                (filter (\<lambda>c. c \<notin> set (spec_expected_columns spec)) (df_columns df)),
            report_column_order_matches_expected :=
              Some (filter (\<lambda>c. c \<in> set (spec_expected_columns spec)) (df_columns df)
                    = filter (\<lambda>c. c \<in> set (df_columns df)) (spec_expected_columns spec)),
            report_field_issue_counts := k,
            report_errors := report_errors r
              @ structure_error_messages detected
                  (filter (\<lambda>c. c \<notin> set (df_columns df)) (spec_required_columns spec))
              @ concat (map (\<lambda>c. column_error_messages detected c
                  (column_checks pd detected c (the (spec_field_map spec c)) (the (df_getitem df c))))
                  (filter (\<lambda>c. c \<in> set (df_columns df)) (spec_expected_columns spec))),
            report_warnings := report_warnings r
              @ structure_warning_messages
                  (filter (\<lambda>c. c \<notin> set ALLOWED_PIPELINE_EXTRA_COLUMNS)
                    (filter (\<lambda>c. c \<notin> set (spec_expected_columns spec)) (df_columns df)))
                  (Some (filter (\<lambda>c. c \<in> set (spec_expected_columns spec)) (df_columns df)
                    = filter (\<lambda>c. c \<in> set (df_columns df)) (spec_expected_columns spec)))
              @ concat (map (\<lambda>c. column_warning_messages detected c
                  (column_checks pd detected c (the (spec_field_map spec c)) (the (df_getitem df c))))
                  (filter (\<lambda>c. c \<in> set (df_columns df)) (spec_expected_columns spec))),
            report_field_checks := fold (\<lambda>c. AList.update c
                (column_checks pd detected c (the (spec_field_map spec c)) (the (df_getitem df c))))
              (filter (\<lambda>c. c \<in> set (df_columns df)) (spec_expected_columns spec))
              (report_field_checks r)\<rparr>)"
proof -
  define present where
    "present = filter (\<lambda>c. c \<in> set (df_columns df)) (spec_expected_columns spec)"
  define missing where
    "missing = filter (\<lambda>c. c \<notin> set (df_columns df)) (spec_required_columns spec)"
  define unexpected where
    "unexpected = filter (\<lambda>c. c \<notin> set ALLOWED_PIPELINE_EXTRA_COLUMNS)
                (filter (\<lambda>c. c \<notin> set (spec_expected_columns spec)) (df_columns df))"
  define ordered where
    "ordered \<longleftrightarrow> filter (\<lambda>c. c \<in> set (spec_expected_columns spec)) (df_columns df) = present"
  define r0 where
    "r0 = r\<lparr>report_schema_doc_path := Some (spec_doc_path spec),
            report_expected_columns := Some (length (spec_expected_columns spec)),
            report_present_expected_columns := Some (length present),
            report_missing_columns := missing,
            report_missing_optional_columns :=
              filter (\<lambda>c. c \<notin> set (df_columns df)) (spec_optional_columns spec),
            report_extra_columns :=
              filter (\<lambda>c. c \<notin> set (spec_expected_columns spec)) (df_columns df),
            report_unexpected_extra_columns := unexpected,
            report_column_order_matches_expected := Some ordered,
            report_errors := report_errors r @ structure_error_messages detected missing,
            report_warnings := report_warnings r @ structure_warning_messages unexpected (Some ordered)\<rparr>"
  have ok: "\<forall>c\<in>set present. spec_field_map spec c \<noteq> None \<and> df_getitem df c \<noteq> None"
    using parsed_field_map [OF assms] df_getitem_present [of _ df]
    by (fastforce simp: present_def)
  have step: "check_against_schema pd df spec detected r = check_columns pd df spec detected present r0"
    unfolding check_against_schema_def Let_def present_def [symmetric] missing_def [symmetric]
      unexpected_def [symmetric] ordered_def [symmetric] r0_def
    by (simp add: add_error_def add_warning_def structure_error_messages_def
        structure_warning_messages_def)
  from check_columns_eq [OF ok, of pd detected r0] obtain k where
    loop: "check_columns pd df spec detected present r0 =
     Inr (r0\<lparr>report_field_issue_counts := k,
            report_errors := report_errors r0 @ concat (map (\<lambda>c.
              column_error_messages detected c
                (column_checks pd detected c (the (spec_field_map spec c)) (the (df_getitem df c)))) present),
            report_warnings := report_warnings r0 @ concat (map (\<lambda>c.
              column_warning_messages detected c
                (column_checks pd detected c (the (spec_field_map spec c)) (the (df_getitem df c)))) present),
            report_field_checks := fold (\<lambda>c. AList.update c
                (column_checks pd detected c (the (spec_field_map spec c)) (the (df_getitem df c))))
              present (report_field_checks r0)\<rparr>)"
    by blast
  show ?thesis
    unfolding step loop present_def [symmetric] missing_def [symmetric]
      unexpected_def [symmetric] ordered_def [symmetric]
    by (rule exI [of _ k]) (simp add: r0_def)
qed

lemma find_id_column_present:
  "find_id_column df = Some c \<Longrightarrow> c \<in> set (df_columns df)"
proof -
  assume a: "find_id_column df = Some c"
  show ?thesis
  proof (cases "filter (\<lambda>c. c \<in> set (df_columns df)) COMMON_ODI_COMPLAINT_ID_COLUMNS")
    case Nil
    with a show ?thesis by (simp add: find_id_column_def split: if_splits)
  next
    case (Cons c' cs)
    with a have "c' = c" by (simp add: find_id_column_def)
    moreover from Cons have
      "c' \<in> set (filter (\<lambda>c. c \<in> set (df_columns df)) COMMON_ODI_COMPLAINT_ID_COLUMNS)"
      by simp
    ultimately show ?thesis by simp
  qed
qed

lemma find_model_year_column_present:
  "find_model_year_column df = Some c \<Longrightarrow> c \<in> set (df_columns df)"
proof -
  assume a: "find_model_year_column df = Some c"
  show ?thesis
  proof (cases "''yeartxt'' \<in> set (df_columns df)")
    case True
    with a show ?thesis by (simp add: find_model_year_column_def)
  next
    case False
    show ?thesis
    proof (cases "filter (\<lambda>c. c \<in> set (df_columns df)) MODEL_YEAR_COLUMN_CANDIDATES")
      case Nil
      with a False show ?thesis by (simp add: find_model_year_column_def)
    next
      case (Cons c' cs)
      with a False have "c' = c" by (simp add: find_model_year_column_def)
      moreover from Cons have
        "c' \<in> set (filter (\<lambda>c. c \<in> set (df_columns df)) MODEL_YEAR_COLUMN_CANDIDATES)"
        by simp
      ultimately show ?thesis by simp
    qed
  qed
qed

lemma check_id_column_eq:
  "\<exists>a b d. check_id_column df r =
     Inr (r\<lparr>report_id_column_found := a, report_id_null_count := b,
            report_id_duplicate_count := d\<rparr>)"
proof (cases "find_id_column df")
  case None
  then have "check_id_column df r = Inr r" by (simp add: check_id_column_def)
  then show ?thesis
    by (intro exI [of _ "report_id_column_found r"] exI [of _ "report_id_null_count r"]
        exI [of _ "report_id_duplicate_count r"]) simp
next
  case (Some c)
  then obtain s where s: "df_getitem df c = Some s"
    using df_getitem_present [of c df] find_id_column_present by blast
  show ?thesis
  proof (cases "df_len df \<le> 1000000")
    case True
    with Some s show ?thesis
      by (intro exI [of _ "Some c"] exI [of _ "Some (series_isna_sum s)"]
          exI [of _ "Some (duplicated_sum (series_cells s))"])
        (simp add: check_id_column_def Let_def)
  next
    case False
    with Some s show ?thesis
      by (intro exI [of _ "Some c"] exI [of _ "Some (series_isna_sum s)"]
          exI [of _ "report_id_duplicate_count r"])
        (simp add: check_id_column_def Let_def)
  qed
qed

lemma check_model_year_eq:
  assumes "report_model_year_column_found r = None"
  shows "\<exists>a b. check_model_year pd df r =
     Inr (r\<lparr>report_model_year_column_found := a,
            report_model_year_out_of_range_count := b,
            report_warnings := report_warnings r @ model_year_warning_messages a b\<rparr>)"
proof (cases "find_model_year_column df")
  case None
  with assms have "check_model_year pd df r = Inr r" by (simp add: check_model_year_def)
  with assms show ?thesis
    by (intro exI [of _ None] exI [of _ "report_model_year_out_of_range_count r"])
      (simp add: model_year_warning_messages_def)
next
  case (Some c)
  then obtain s where s: "df_getitem df c = Some s"
    using df_getitem_present [of c df] find_model_year_column_present by blast
  let ?n = "mask_sum (map (\<lambda>v. case v of None \<Rightarrow> False | Some x \<Rightarrow> \<not> in_model_year_range x)
                       (series_to_numeric pd s))"
  from Some s show ?thesis
    by (intro exI [of _ "Some c"] exI [of _ "Some ?n"])
      (simp add: check_model_year_def Let_def model_year_warning_messages_def add_warning_def)
qed


lemma collect_matched:
  assumes res: "resolve_schema fs df requested = (Some detected, score, overlap)"
    and cat: "map_of (catalog_schemas (schema_catalog fs)) detected = Some spec"
  shows "\<exists>r. collect_schema_report pd fs df name requested = Inr r \<and>
     report_dataset_name r = name \<and> report_rows r = df_len df \<and>
     report_columns r = length (df_columns df) \<and>
     report_schema_name r = Some detected \<and> report_schema_match_score r = Some score \<and>
     report_schema_doc_path r = Some (spec_doc_path spec) \<and>
     report_missing_columns r =
       filter (\<lambda>c. c \<notin> set (df_columns df)) (spec_required_columns spec) \<and>
     report_unexpected_extra_columns r =
       filter (\<lambda>c. c \<notin> set ALLOWED_PIPELINE_EXTRA_COLUMNS)
         (filter (\<lambda>c. c \<notin> set (spec_expected_columns spec)) (df_columns df)) \<and>
     report_column_order_matches_expected r =
       Some (filter (\<lambda>c. c \<in> set (spec_expected_columns spec)) (df_columns df)
             = filter (\<lambda>c. c \<in> set (df_columns df)) (spec_expected_columns spec)) \<and>
     report_field_checks r =
       fold (\<lambda>c. AList.update c
               (column_checks pd detected c (the (spec_field_map spec c)) (the (df_getitem df c))))
         (filter (\<lambda>c. c \<in> set (df_columns df)) (spec_expected_columns spec)) [] \<and>
     report_errors r =
       structure_error_messages detected (report_missing_columns r)
       @ concat (map (\<lambda>c. column_error_messages detected c
           (column_checks pd detected c (the (spec_field_map spec c)) (the (df_getitem df c))))
           (filter (\<lambda>c. c \<in> set (df_columns df)) (spec_expected_columns spec))) \<and>
     report_warnings r =
       map (\<lambda>(n, m). CouldNotParseSchemaDoc n m) (catalog_errors (schema_catalog fs))
       @ structure_warning_messages (report_unexpected_extra_columns r)
           (report_column_order_matches_expected r)
       @ concat (map (\<lambda>c. column_warning_messages detected c
           (column_checks pd detected c (the (spec_field_map spec c)) (the (df_getitem df c))))
           (filter (\<lambda>c. c \<in> set (df_columns df)) (spec_expected_columns spec)))
       @ model_year_warning_messages (report_model_year_column_found r)
           (report_model_year_out_of_range_count r)"
proof -
  from catalog_entry_parsed [OF cat] obtain p where
    parsed: "parse_schema_doc fs p detected = Inr spec" and ne: "detected \<noteq> []"
    by blast
  define r0 where
    "r0 = (initial_report df name)
            \<lparr>report_warnings := report_warnings (initial_report df name)
               @ map (\<lambda>(failed_schema_name, m). CouldNotParseSchemaDoc failed_schema_name m)
                     (catalog_errors (schema_catalog fs))\<rparr>
            \<lparr>report_schema_name := Some detected, report_schema_match_score := Some score\<rparr>"
  from check_against_schema_eq [OF parsed, of pd df detected r0] obtain r1 k where
    A: "check_against_schema pd df spec detected r0 = Inr r1" and
    r1: "r1 = r0\<lparr>report_schema_doc_path := Some (spec_doc_path spec),
            report_expected_columns := Some (length (spec_expected_columns spec)),
            report_present_expected_columns :=
              Some (length (filter (\<lambda>c. c \<in> set (df_columns df)) (spec_expected_columns spec))),
            report_missing_columns :=
              filter (\<lambda>c. c \<notin> set (df_columns df)) (spec_required_columns spec),
            report_missing_optional_columns :=
              filter (\<lambda>c. c \<notin> set (df_columns df)) (spec_optional_columns spec),
            report_extra_columns :=
              filter (\<lambda>c. c \<notin> set (spec_expected_columns spec)) (df_columns df),
            report_unexpected_extra_columns :=
              filter (\<lambda>c. c \<notin> set ALLOWED_PIPELINE_EXTRA_COLUMNS)
                (filter (\<lambda>c. c \<notin> set (spec_expected_columns spec)) (df_columns df)),
            report_column_order_matches_expected :=
              Some (filter (\<lambda>c. c \<in> set (spec_expected_columns spec)) (df_columns df)
                    = filter (\<lambda>c. c \<in> set (df_columns df)) (spec_expected_columns spec)),
            report_field_issue_counts := k,
            report_errors := report_errors r0
              @ structure_error_messages detected
                  (filter (\<lambda>c. c \<notin> set (df_columns df)) (spec_required_columns spec))
              @ concat (map (\<lambda>c. column_error_messages detected c
                  (column_checks pd detected c (the (spec_field_map spec c)) (the (df_getitem df c))))
                  (filter (\<lambda>c. c \<in> set (df_columns df)) (spec_expected_columns spec))),
            report_warnings := report_warnings r0
              @ structure_warning_messages
                  (filter (\<lambda>c. c \<notin> set ALLOWED_PIPELINE_EXTRA_COLUMNS)
                    (filter (\<lambda>c. c \<notin> set (spec_expected_columns spec)) (df_columns df)))
                  (Some (filter (\<lambda>c. c \<in> set (spec_expected_columns spec)) (df_columns df)
                    = filter (\<lambda>c. c \<in> set (df_columns df)) (spec_expected_columns spec)))
              @ concat (map (\<lambda>c. column_warning_messages detected c
                  (column_checks pd detected c (the (spec_field_map spec c)) (the (df_getitem df c))))
                  (filter (\<lambda>c. c \<in> set (df_columns df)) (spec_expected_columns spec))),
            report_field_checks := fold (\<lambda>c. AList.update c
                (column_checks pd detected c (the (spec_field_map spec c)) (the (df_getitem df c))))
              (filter (\<lambda>c. c \<in> set (df_columns df)) (spec_expected_columns spec))
              (report_field_checks r0)\<rparr>"
    by blast
  from check_id_column_eq [of df r1] obtain r2 a b d where
    B: "check_id_column df r1 = Inr r2" and
    r2: "r2 = r1\<lparr>report_id_column_found := a, report_id_null_count := b,
                  report_id_duplicate_count := d\<rparr>"
    by blast
  have "report_model_year_column_found r2 = None"
    by (simp add: r2 r1 r0_def initial_report_def)
  from check_model_year_eq [OF this, of pd df] obtain r3 y z where
    C: "check_model_year pd df r2 = Inr r3" and
    r3: "r3 = r2\<lparr>report_model_year_column_found := y,
            report_model_year_out_of_range_count := z,
            report_warnings := report_warnings r2 @ model_year_warning_messages y z\<rparr>"
    by blast
  have "collect_schema_report pd fs df name requested =
          (case check_against_schema pd df spec detected r0 of
             Inl e \<Rightarrow> Inl e
           | Inr r \<Rightarrow> (case check_id_column df r of
                          Inl e \<Rightarrow> Inl e
                        | Inr r \<Rightarrow> check_model_year pd df r))"
    unfolding collect_schema_report_def Let_def r0_def
    by (simp add: res cat ne)
  then have "collect_schema_report pd fs df name requested = Inr r3"
    by (simp add: A B C)
  then show ?thesis
    by (intro exI [of _ r3]) (simp add: r3 r2 r1 r0_def initial_report_def)
qed


lemma collect_tail:
  assumes start: "collect_schema_report pd fs df name requested =
          (case check_id_column df r1 of
             Inl e \<Rightarrow> Inl e
           | Inr r \<Rightarrow> check_model_year pd df r)"
    and my: "report_model_year_column_found r1 = None"
  shows "\<exists>a b d y z. collect_schema_report pd fs df name requested =
     Inr (r1\<lparr>report_id_column_found := a, report_id_null_count := b,
             report_id_duplicate_count := d,
             report_model_year_column_found := y,
             report_model_year_out_of_range_count := z,
             report_warnings := report_warnings r1 @ model_year_warning_messages y z\<rparr>)"
proof -
  from check_id_column_eq [of df r1] obtain r2 a b d where
    B: "check_id_column df r1 = Inr r2" and
    r2: "r2 = r1\<lparr>report_id_column_found := a, report_id_null_count := b,
                  report_id_duplicate_count := d\<rparr>"
    by blast
  have "report_model_year_column_found r2 = None"
    by (simp add: r2 my)
  from check_model_year_eq [OF this, of pd df] obtain r3 y z where
    C: "check_model_year pd df r2 = Inr r3" and
    r3: "r3 = r2\<lparr>report_model_year_column_found := y,
            report_model_year_out_of_range_count := z,
            report_warnings := report_warnings r2 @ model_year_warning_messages y z\<rparr>"
    by blast
  have "collect_schema_report pd fs df name requested = Inr r3"
    by (simp add: start B C)
  then show ?thesis
    by (intro exI [of _ a] exI [of _ b] exI [of _ d] exI [of _ y] exI [of _ z])
      (simp add: r3 r2)
qed

lemma collect_unmatched_None:
  assumes res: "resolve_schema fs df requested = (None, score, overlap)"
  shows "\<exists>r. collect_schema_report pd fs df name requested = Inr r \<and>
     report_dataset_name r = name \<and> report_rows r = df_len df \<and>
     report_columns r = length (df_columns df) \<and>
     report_schema_name r = None \<and> report_schema_match_score r = Some score \<and>
     report_schema_doc_path r = None \<and>
     report_missing_columns r = [] \<and> report_unexpected_extra_columns r = [] \<and>
     report_column_order_matches_expected r = None \<and>
     report_field_checks r = [] \<and> report_errors r = [] \<and>
     report_warnings r =
       map (\<lambda>(n, m). CouldNotParseSchemaDoc n m) (catalog_errors (schema_catalog fs))
       @ [NoSchemaMatched]
       @ model_year_warning_messages (report_model_year_column_found r)
           (report_model_year_out_of_range_count r)"
proof -
  define r1 where
    "r1 = add_warning NoSchemaMatched ((initial_report df name)
            \<lparr>report_warnings := report_warnings (initial_report df name)
               @ map (\<lambda>(failed_schema_name, m). CouldNotParseSchemaDoc failed_schema_name m)
                     (catalog_errors (schema_catalog fs))\<rparr>
            \<lparr>report_schema_name := None, report_schema_match_score := Some score\<rparr>)"
  have start: "collect_schema_report pd fs df name requested =
          (case check_id_column df r1 of
             Inl e \<Rightarrow> Inl e
           | Inr r \<Rightarrow> check_model_year pd df r)"
    unfolding collect_schema_report_def Let_def r1_def
    by (simp add: res)
  have my: "report_model_year_column_found r1 = None"
    by (simp add: r1_def add_warning_def initial_report_def)
  from collect_tail [OF start my] obtain a b d y z where
    "collect_schema_report pd fs df name requested =
     Inr (r1\<lparr>report_id_column_found := a, report_id_null_count := b,
             report_id_duplicate_count := d,
             report_model_year_column_found := y,
             report_model_year_out_of_range_count := z,
             report_warnings := report_warnings r1 @ model_year_warning_messages y z\<rparr>)"
    by blast
  then show ?thesis
    by (intro exI [of _ "r1\<lparr>report_id_column_found := a, report_id_null_count := b,
             report_id_duplicate_count := d,
             report_model_year_column_found := y,
             report_model_year_out_of_range_count := z,
             report_warnings := report_warnings r1 @ model_year_warning_messages y z\<rparr>"])
      (simp add: r1_def add_warning_def initial_report_def)
qed

lemma collect_unmatched_Some:
  assumes res: "resolve_schema fs df requested = (Some d, score, overlap)"
    and un: "d = [] \<or> map_of (catalog_schemas (schema_catalog fs)) d = None"
  shows "\<exists>r. collect_schema_report pd fs df name requested = Inr r \<and>
     report_dataset_name r = name \<and> report_rows r = df_len df \<and>
     report_columns r = length (df_columns df) \<and>
     report_schema_name r = Some d \<and> report_schema_match_score r = Some score \<and>
     report_schema_doc_path r = None \<and>
     report_missing_columns r = [] \<and> report_unexpected_extra_columns r = [] \<and>
     report_column_order_matches_expected r = None \<and>
     report_field_checks r = [] \<and> report_errors r = [] \<and>
     report_warnings r =
       map (\<lambda>(n, m). CouldNotParseSchemaDoc n m) (catalog_errors (schema_catalog fs))
       @ (if d \<noteq> [] then [SchemaNotAvailable d] else [])
       @ model_year_warning_messages (report_model_year_column_found r)
           (report_model_year_out_of_range_count r)"
proof -
  define r0 where
    "r0 = (initial_report df name)
            \<lparr>report_warnings := report_warnings (initial_report df name)
               @ map (\<lambda>(failed_schema_name, m). CouldNotParseSchemaDoc failed_schema_name m)
                     (catalog_errors (schema_catalog fs))\<rparr>
            \<lparr>report_schema_name := Some d, report_schema_match_score := Some score\<rparr>"
  define r1 where
    "r1 = (if d \<noteq> [] then add_warning (SchemaNotAvailable d) r0 else r0)"
  have start: "collect_schema_report pd fs df name requested =
          (case check_id_column df r1 of
             Inl e \<Rightarrow> Inl e
           | Inr r \<Rightarrow> check_model_year pd df r)"
  proof (cases "d = []")
    case True
    then show ?thesis
      unfolding collect_schema_report_def Let_def r1_def r0_def
      by (simp add: res)
  next
    case False
    with un have none: "map_of (catalog_schemas (schema_catalog fs)) d = None" by simp
    from False show ?thesis
      unfolding collect_schema_report_def Let_def r1_def r0_def
      by (simp add: res none)
  qed
  have my: "report_model_year_column_found r1 = None"
    by (simp add: r1_def r0_def add_warning_def initial_report_def)
  from collect_tail [OF start my] obtain a b d' y z where
    "collect_schema_report pd fs df name requested =
     Inr (r1\<lparr>report_id_column_found := a, report_id_null_count := b,
             report_id_duplicate_count := d',
             report_model_year_column_found := y,
             report_model_year_out_of_range_count := z,
             report_warnings := report_warnings r1 @ model_year_warning_messages y z\<rparr>)"
    by blast
  then show ?thesis
    by (intro exI [of _ "r1\<lparr>report_id_column_found := a, report_id_null_count := b,
             report_id_duplicate_count := d',
             report_model_year_column_found := y,
             report_model_year_out_of_range_count := z,
             report_warnings := report_warnings r1 @ model_year_warning_messages y z\<rparr>"])
      (simp add: r1_def r0_def add_warning_def initial_report_def)
qed



lemma detect_loop_best:
  "detect_loop cols catalog (bn, bs, bo) = (n, s, ov) \<Longrightarrow>
   s = Max (insert bs (score_against cols ` snd ` set catalog)) \<and>
   ((n, s, ov) = (bn, bs, bo) \<or>
    (\<exists>name spec. (name, spec) \<in> set catalog \<and> n = Some name \<and>
        s = score_against cols spec \<and> ov = overlap_with cols spec))"
proof (induction catalog arbitrary: bn bs bo)
  case Nil
  then show ?case by simp
next
  case (Cons entry catalog)
  obtain name spec where entry: "entry = (name, spec)" by (cases entry)
  let ?S = "score_against cols ` snd ` set catalog"
  have fin: "finite ?S" by simp
  show ?case
  proof (cases "score_against cols spec > bs")
    case True
    with Cons.prems entry have
      "detect_loop cols catalog (Some name, score_against cols spec, overlap_with cols spec) = (n, s, ov)"
      by (simp add: Let_def)
    from Cons.IH [OF this] have
      s: "s = Max (insert (score_against cols spec) ?S)" and
      w: "(n, s, ov) = (Some name, score_against cols spec, overlap_with cols spec) \<or>
          (\<exists>name spec. (name, spec) \<in> set catalog \<and> n = Some name \<and>
             s = score_against cols spec \<and> ov = overlap_with cols spec)"
      by blast+
    have "Max (insert bs (insert (score_against cols spec) ?S)) =
          max bs (Max (insert (score_against cols spec) ?S))"
      using fin by (simp only: Max_insert finite_insert insert_not_empty not_False_eq_True)
    also have "\<dots> = Max (insert (score_against cols spec) ?S)"
      using True fin by (simp add: max_def Max_ge_iff)
    finally have "s = Max (insert bs (score_against cols ` snd ` set (entry # catalog)))"
      using s by (simp add: entry)
    moreover from w have "(n, s, ov) = (bn, bs, bo) \<or>
      (\<exists>name spec. (name, spec) \<in> set (entry # catalog) \<and> n = Some name \<and>
             s = score_against cols spec \<and> ov = overlap_with cols spec)"
      unfolding entry by auto
    ultimately show ?thesis by blast
  next
    case False
    with Cons.prems entry have "detect_loop cols catalog (bn, bs, bo) = (n, s, ov)"
      by (simp add: Let_def)
    from Cons.IH [OF this] have
      s: "s = Max (insert bs ?S)" and
      w: "(n, s, ov) = (bn, bs, bo) \<or>
          (\<exists>name spec. (name, spec) \<in> set catalog \<and> n = Some name \<and>
             s = score_against cols spec \<and> ov = overlap_with cols spec)"
      by blast+
    have "Max (insert (score_against cols spec) (insert bs ?S)) =
          max (score_against cols spec) (Max (insert bs ?S))"
      using fin by (simp only: Max_insert finite_insert insert_not_empty not_False_eq_True)
    also have "\<dots> = Max (insert bs ?S)"
      using False fin by (simp add: max_def Max_ge_iff)
    finally have "s = Max (insert bs (score_against cols ` snd ` set (entry # catalog)))"
      using s by (simp add: entry insert_commute)
    moreover from w have "(n, s, ov) = (bn, bs, bo) \<or>
      (\<exists>name spec. (name, spec) \<in> set (entry # catalog) \<and> n = Some name \<and>
             s = score_against cols spec \<and> ov = overlap_with cols spec)"
      unfolding entry by auto
    ultimately show ?thesis by blast
  qed
qed


lemma detect_schema_name_best:
  "fst (snd (detect_schema_name fs cols)) =
     Max (insert 0 (score_against cols ` snd ` set (catalog_schemas (schema_catalog fs))))"
  "fst (snd (detect_schema_name fs cols)) < 35 / 100 \<Longrightarrow> fst (detect_schema_name fs cols) = None"
  "(fst (snd (detect_schema_name fs cols)) = 0 \<and> snd (snd (detect_schema_name fs cols)) = 0) \<or>
   (\<exists>name spec. (name, spec) \<in> set (catalog_schemas (schema_catalog fs)) \<and>
      fst (snd (detect_schema_name fs cols)) = score_against cols spec \<and>
      snd (snd (detect_schema_name fs cols)) = overlap_with cols spec)"
  "fst (detect_schema_name fs cols) = Some name \<Longrightarrow>
   35 / 100 \<le> fst (snd (detect_schema_name fs cols)) \<and>
   (\<exists>spec. (name, spec) \<in> set (catalog_schemas (schema_catalog fs)) \<and>
      fst (snd (detect_schema_name fs cols)) = score_against cols spec \<and>
      snd (snd (detect_schema_name fs cols)) = overlap_with cols spec)"
proof -
  obtain n s ov where
    loop: "detect_loop cols (catalog_schemas (schema_catalog fs)) (None, 0, 0) = (n, s, ov)"
    by (cases "detect_loop cols (catalog_schemas (schema_catalog fs)) (None, 0, 0)") auto
  note best = detect_loop_best [OF loop]
  have res: "detect_schema_name fs cols = (if s < 35 / 100 then None else n, s, ov)"
    by (simp add: detect_schema_name_def loop)
  show "fst (snd (detect_schema_name fs cols)) =
     Max (insert 0 (score_against cols ` snd ` set (catalog_schemas (schema_catalog fs))))"
    using best by (simp add: res)
  show "fst (snd (detect_schema_name fs cols)) < 35 / 100 \<Longrightarrow> fst (detect_schema_name fs cols) = None"
    by (simp add: res)
  show "(fst (snd (detect_schema_name fs cols)) = 0 \<and> snd (snd (detect_schema_name fs cols)) = 0) \<or>
   (\<exists>name spec. (name, spec) \<in> set (catalog_schemas (schema_catalog fs)) \<and>
      fst (snd (detect_schema_name fs cols)) = score_against cols spec \<and>
      snd (snd (detect_schema_name fs cols)) = overlap_with cols spec)"
    using best by (auto simp: res)
  show "35 / 100 \<le> fst (snd (detect_schema_name fs cols)) \<and>
   (\<exists>spec. (name, spec) \<in> set (catalog_schemas (schema_catalog fs)) \<and>
      fst (snd (detect_schema_name fs cols)) = score_against cols spec \<and>
      snd (snd (detect_schema_name fs cols)) = overlap_with cols spec)"
    if "fst (detect_schema_name fs cols) = Some name"
    using that best by (auto simp: res split: if_splits)
qed

lemma resolve_schema_explicit:
  "map_of (catalog_schemas (schema_catalog fs)) wanted = Some spec \<Longrightarrow>
   resolve_schema fs df (Some wanted) =
     (Some wanted, score_against (df_columns df) spec, overlap_with (df_columns df) spec)"
  "map_of (catalog_schemas (schema_catalog fs)) wanted = None \<Longrightarrow>
   resolve_schema fs df (Some wanted) = (Some wanted, 0, 0)"
  "resolve_schema fs df None = detect_schema_name fs (df_columns df)"
  by (simp_all add: resolve_schema_def)

lemma collect_schema_report_schema:
  "\<exists>r. collect_schema_report pd fs df name requested = Inr r \<and>
     report_schema_name r = fst (resolve_schema fs df requested) \<and>
     report_schema_match_score r = Some (fst (snd (resolve_schema fs df requested)))"
proof -
  obtain found score overlap where res: "resolve_schema fs df requested = (found, score, overlap)"
    by (cases "resolve_schema fs df requested") auto
  show ?thesis
  proof (cases found)
    case None
    from collect_unmatched_None [of fs df requested score overlap pd name] res None
    show ?thesis by auto
  next
    case (Some d)
    show ?thesis
    proof (cases "map_of (catalog_schemas (schema_catalog fs)) d")
      case None
      then have "d = [] \<or> map_of (catalog_schemas (schema_catalog fs)) d = None" by simp
      from collect_unmatched_Some [OF _ this, of df requested score overlap pd name] res Some
      show ?thesis by auto
    next
      case (Some spec)
      from collect_matched [OF _ Some, of df requested score overlap pd name] res \<open>found = Some d\<close>
      show ?thesis by auto
    qed
  qed
qed


lemma catalog_fs_small:
  "catalog_schemas (schema_catalog fs_small) = [(''complaints'', spec_small)]"
  "catalog_errors (schema_catalog fs_small) = [(''recalls'', ''Schema doc not found: docs/RCL.txt'')]"
proof -
  have r: "parse_schema_doc fs_small ''docs/RCL.txt'' ''recalls''
             = Inl (FileNotFoundError ''Schema doc not found: docs/RCL.txt'')"
    by (simp add: parse_schema_doc_def fs_small_def)
  show "catalog_schemas (schema_catalog fs_small) = [(''complaints'', spec_small)]"
    by (simp add: schema_catalog_def SCHEMA_DOCS_def example_docs_parse r)
  show "catalog_errors (schema_catalog fs_small) = [(''recalls'', ''Schema doc not found: docs/RCL.txt'')]"
    by (simp add: schema_catalog_def SCHEMA_DOCS_def example_docs_parse r)
qed

lemma df_unrelated_columns: "df_columns df_unrelated = [''colour'']"
  by (simp add: df_unrelated_def df_columns_def DAList.update.rep_eq DAList.empty.rep_eq)

lemma unrelated_scores:
  "score_against [''colour''] spec_small = 0"
  "overlap_with [''colour''] spec_small = 0"
  by (simp_all add: score_against_def overlap_with_def spec_small_columns)

lemma detect_unrelated: "detect_schema_name fs_small [''colour''] = (None, 0, 0)"
  by (simp add: detect_schema_name_def catalog_fs_small unrelated_scores)


lemma schema_catalog_loop_errors:
  assumes "(n, m) \<in> set (catalog_errors (schema_catalog_loop fs docs info))"
  shows "(n, m) \<in> set (catalog_errors info) \<or> n \<in> fst ` set docs"
  using assms
proof (induction docs arbitrary: info)
  case Nil
  then show ?case by simp
next
  case (Cons d docs)
  obtain n' p' where d: "d = (n', p')" by (cases d)
  show ?case
  proof (cases "parse_schema_doc fs p' n'")
    case (Inl e)
    with Cons.prems d have
      "(n, m) \<in> set (catalog_errors (schema_catalog_loop fs docs
          (info\<lparr>catalog_errors := catalog_errors info @ [(n', exception_text e)]\<rparr>)))"
      by simp
    from Cons.IH [OF this] d show ?thesis by auto
  next
    case (Inr spec')
    with Cons.prems d have
      "(n, m) \<in> set (catalog_errors (schema_catalog_loop fs docs
          (info\<lparr>catalog_schemas := catalog_schemas info @ [(n', spec')]\<rparr>)))"
      by simp
    from Cons.IH [OF this] d show ?thesis by auto
  qed
qed

lemma unconfigured_schema:
  assumes "wanted \<notin> fst ` set SCHEMA_DOCS"
  shows "map_of (catalog_schemas (schema_catalog fs)) wanted = None"
    and "map_of (catalog_errors (schema_catalog fs)) wanted = None"
proof -
  have "wanted \<notin> fst ` set (catalog_schemas (schema_catalog fs))"
  proof
    assume "wanted \<in> fst ` set (catalog_schemas (schema_catalog fs))"
    then obtain spec where "(wanted, spec) \<in> set (catalog_schemas (schema_catalog fs))" by auto
    then have "\<exists>p. (wanted, p) \<in> set SCHEMA_DOCS"
      unfolding schema_catalog_def by (auto dest: schema_catalog_loop_schemas)
    with assms show False by force
  qed
  then show "map_of (catalog_schemas (schema_catalog fs)) wanted = None"
    by (simp add: map_of_eq_None_iff)
  have "wanted \<notin> fst ` set (catalog_errors (schema_catalog fs))"
  proof
    assume "wanted \<in> fst ` set (catalog_errors (schema_catalog fs))"
    then obtain m where "(wanted, m) \<in> set (catalog_errors (schema_catalog fs))" by auto
    then have "wanted \<in> fst ` set SCHEMA_DOCS"
      unfolding schema_catalog_def by (auto dest: schema_catalog_loop_errors)
    with assms show False by simp
  qed
  then show "map_of (catalog_errors (schema_catalog fs)) wanted = None"
    by (simp add: map_of_eq_None_iff)
qed

lemma get_schema_spec_unavailable:
  assumes "map_of (catalog_schemas (schema_catalog fs)) wanted = None"
  shows "isl (get_schema_spec fs wanted)"
  using assms by (simp add: get_schema_spec_def Let_def split: option.splits)

lemma get_schema_spec_unconfigured:
  assumes "wanted \<notin> fst ` set SCHEMA_DOCS"
  shows "\<exists>m. get_schema_spec fs wanted = Inl (KeyError m)"
  using unconfigured_schema [OF assms, of fs]
  by (simp add: get_schema_spec_def Let_def)


text \<open>
  C9, as amended. When \<open>collect_schema_report\<close> is called with an explicit, non-empty
  schema name that is not in the catalog, it returns a report with that schema name,
  match score 0, no field checks, no errors, and the warning that the requested schema
  is not available; \<open>get_schema_spec\<close> fails for such a name, and with a \<^verbatim>\<open>KeyError\<close> when
  the name is not configured in \<open>SCHEMA_DOCS\<close>.
\<close>

theorem unknown_schema_report:
  assumes "wanted \<noteq> []"
    and "map_of (catalog_schemas (schema_catalog fs)) wanted = None"
  shows "(\<exists>r. collect_schema_report pd fs df name (Some wanted) = Inr r \<and>
            report_schema_name r = Some wanted \<and>
            report_schema_match_score r = Some 0 \<and>
            report_field_checks r = [] \<and> report_errors r = [] \<and>
            SchemaNotAvailable wanted \<in> set (report_warnings r)) \<and>
         isl (get_schema_spec fs wanted) \<and>
         (wanted \<notin> fst ` set SCHEMA_DOCS \<longrightarrow> (\<exists>m. get_schema_spec fs wanted = Inl (KeyError m)))"
proof -
  have res: "resolve_schema fs df (Some wanted) = (Some wanted, 0, 0)"
    using assms(2) by (rule resolve_schema_explicit(2))
  from assms(2) have "wanted = [] \<or> map_of (catalog_schemas (schema_catalog fs)) wanted = None"
    by simp
  from collect_unmatched_Some [OF res this, of pd name] assms(1)
  have "\<exists>r. collect_schema_report pd fs df name (Some wanted) = Inr r \<and>
            report_schema_name r = Some wanted \<and>
            report_schema_match_score r = Some 0 \<and>
            report_field_checks r = [] \<and> report_errors r = [] \<and>
            SchemaNotAvailable wanted \<in> set (report_warnings r)"
    by auto
  with get_schema_spec_unavailable [OF assms(2)] get_schema_spec_unconfigured [of wanted fs]
  show ?thesis by blast
qed

theorem unknown_schema_report_witness:
  "\<not> isl (collect_schema_report pd_example fs_small df_unrelated ''d'' (Some ''tyres'')) \<and>
   report_schema_match_score
     (projr (collect_schema_report pd_example fs_small df_unrelated ''d'' (Some ''tyres'')))
     = Some 0 \<and>
   SchemaNotAvailable ''tyres'' \<in> set (report_warnings
     (projr (collect_schema_report pd_example fs_small df_unrelated ''d'' (Some ''tyres''))))"
proof -
  have a: "''tyres'' \<noteq> []" by simp
  have b: "map_of (catalog_schemas (schema_catalog fs_small)) ''tyres'' = None"
    by (simp add: catalog_fs_small)
  from unknown_schema_report [OF a b, of pd_example df_unrelated "''d''"]
  show ?thesis by auto
qed

text \<open>With the empty string as the explicit schema name, which is not in the catalog
  either, the report comes without the warning.\<close>

theorem unknown_schema_report_counterexample:
  "map_of (catalog_schemas (schema_catalog fs_small)) [] = None \<and>
   \<not> isl (collect_schema_report pd_example fs_small df_unrelated ''d'' (Some [])) \<and>
   SchemaNotAvailable [] \<notin> set (report_warnings
     (projr (collect_schema_report pd_example fs_small df_unrelated ''d'' (Some []))))"
proof -
  have b: "map_of (catalog_schemas (schema_catalog fs_small)) [] = None"
    by (simp add: catalog_fs_small)
  have res: "resolve_schema fs_small df_unrelated (Some []) = (Some [], 0, 0)"
    using b by (rule resolve_schema_explicit(2))
  have "[] = ([] :: string) \<or> map_of (catalog_schemas (schema_catalog fs_small)) [] = None"
    by simp
  from collect_unmatched_Some [OF res this, of pd_example "''d''"] obtain r where
    r: "collect_schema_report pd_example fs_small df_unrelated ''d'' (Some []) = Inr r" and
    w: "report_warnings r =
       map (\<lambda>(n, m). CouldNotParseSchemaDoc n m) (catalog_errors (schema_catalog fs_small))
       @ (if ([] :: string) \<noteq> [] then [SchemaNotAvailable []] else [])
       @ model_year_warning_messages (report_model_year_column_found r)
           (report_model_year_out_of_range_count r)"
    by blast
  have "SchemaNotAvailable [] \<notin> set (report_warnings r)"
    unfolding w
    by (auto simp: catalog_fs_small model_year_warning_messages_def split: option.splits if_splits)
  with r b show ?thesis by simp
qed


end
